theory Spec2Isabelle
  imports Complex_Main "HOL-Library.Sublist" "HOL-Library.Code_Target_Nat"
begin

section \<open>Remote system metrics route: a model of \<open>src/app/api/remote-system/route.ts\<close>\<close>

text \<open>
  The route exports one function, \<open>POST\<close>. It reads a JSON body, validates it, opens an SSH
  session (node-ssh), runs two remote commands, releases the session and the temporary key
  file, and parses the two outputs into the response. The model follows the source top to
  bottom. What the outside world decides (the clock, the outcome of the file write, of the
  connect and of the two commands) is an explicit argument of the model; what the route
  itself computes (validation, key normalisation, parsing, formatting, clean-up, error
  classification) is defined here as executable functions.

  Conventions.
  \<^item> A JavaScript string is a list of UTF-16 code units, each a natural number
    (\<open>jsstring\<close>); \<open>length\<close> counts code units, as JavaScript's \<open>length\<close> and \<open>substring\<close>
    do. \<open>S ''abc''\<close> is the JavaScript string of an ASCII text.
  \<^item> A JavaScript number is a \<open>jsnum\<close>: \<open>NaN\<close>, the two infinities, or a finite binary64
    value \<open>Fin m e\<close>, which denotes \<open>m * 2^e\<close>. Every arithmetic result is rounded to the
    nearest binary64 value (\<open>round_ratio\<close>). The sign of zero is not kept: the route never
    divides by a zero and never prints the sign of a zero.
\<close>

subsection \<open>Strings\<close>

type_synonym jsstring = "nat list"

abbreviation C :: "char \<Rightarrow> nat" where
  "C \<equiv> of_char"

abbreviation S :: "string \<Rightarrow> jsstring" where
  "S \<equiv> map of_char"

text \<open>
  The code units that \<open>trim\<close> strips, that \<open>\s\<close> matches and that \<open>parseInt\<close> and
  \<open>parseFloat\<close> skip: WhiteSpace (TAB, VT, FF, SP, NBSP, the other space separators, BOM)
  and LineTerminator (LF, CR, LS, PS).
\<close>

definition is_space :: "nat \<Rightarrow> bool" where
  "is_space c \<longleftrightarrow>
     c \<in> {9, 10, 11, 12, 13, 32, 160, 5760, 8232, 8233, 8239, 8287, 12288, 65279}
     \<or> (8192 \<le> c \<and> c \<le> 8202)"

definition trim_start :: "jsstring \<Rightarrow> jsstring" where
  "trim_start s = dropWhile is_space s"

definition trim :: "jsstring \<Rightarrow> jsstring" where
  "trim s = rev (dropWhile is_space (rev (dropWhile is_space s)))"

text \<open>\<open>s.includes(sub)\<close>.\<close>

fun includes_str :: "jsstring \<Rightarrow> jsstring \<Rightarrow> bool" where
  "includes_str [] sub = (sub = [])"
| "includes_str (c # cs) sub = (prefix sub (c # cs) \<or> includes_str cs sub)"

text \<open>
  \<open>s.replace(/pat/g, rep)\<close> for a pattern that is a fixed, non-empty text: every occurrence,
  left to right, without overlap.
\<close>

fun replace_all :: "jsstring \<Rightarrow> jsstring \<Rightarrow> jsstring \<Rightarrow> jsstring" where
  "replace_all pat rep [] = []"
| "replace_all pat rep (c # cs) =
     (if pat \<noteq> [] \<and> prefix pat (c # cs)
      then rep @ replace_all pat rep (drop (length pat - 1) cs)
      else c # replace_all pat rep cs)"

text \<open>
  \<open>s.split(sep)\<close> for a non-empty separator text. The second argument collects, reversed, the
  code units of the piece being read; the empty string splits into one empty piece.
\<close>

fun split_acc :: "jsstring \<Rightarrow> jsstring \<Rightarrow> jsstring \<Rightarrow> jsstring list" where
  "split_acc sep acc [] = [rev acc]"
| "split_acc sep acc (c # cs) =
     (if sep \<noteq> [] \<and> prefix sep (c # cs)
      then rev acc # split_acc sep [] (drop (length sep - 1) cs)
      else split_acc sep (c # acc) cs)"

definition split :: "jsstring \<Rightarrow> jsstring \<Rightarrow> jsstring list" where
  "split sep s = split_acc sep [] s"

text \<open>
  \<open>s.split(/\s+/)\<close>: the pieces between maximal runs of whitespace. A leading or a trailing
  run leaves an empty first or last piece, and the empty string gives one empty piece.
\<close>

function split_ws :: "jsstring \<Rightarrow> jsstring list" where
  "split_ws s =
     (let tok = takeWhile (\<lambda>c. \<not> is_space c) s;
          rest = dropWhile (\<lambda>c. \<not> is_space c) s
      in if rest = [] then [tok] else tok # split_ws (dropWhile is_space rest))"
  by pat_completeness auto
termination
proof (relation "measure length")
  show "wf (measure length)" by simp
next
  fix s tok rest :: jsstring
  assume rest: "rest = dropWhile (\<lambda>c. \<not> is_space c) s" and ne: "rest \<noteq> []"
  from ne obtain c cs where cons: "rest = c # cs" by (cases rest) auto
  have "dropWhile (\<lambda>c. \<not> is_space c) s = c # cs"
    using rest cons by simp
  then have "is_space c"
    by (simp add: dropWhile_eq_Cons_conv)
  then have "length (dropWhile is_space rest) \<le> length cs"
    using cons by (simp add: length_dropWhile_le)
  moreover have "length rest \<le> length s"
    unfolding rest by (rule length_dropWhile_le)
  ultimately show "(dropWhile is_space rest, s) \<in> measure length"
    using cons by simp
qed

text \<open>\<open>xs.join(sep)\<close>.\<close>

fun join :: "jsstring \<Rightarrow> jsstring list \<Rightarrow> jsstring" where
  "join sep [] = []"
| "join sep [x] = x"
| "join sep (x # y # ys) = x @ sep @ join sep (y # ys)"

text \<open>\<open>xs[i]\<close>: \<open>undefined\<close> (here \<open>None\<close>) beyond the end.\<close>

definition nth_opt :: "'a list \<Rightarrow> nat \<Rightarrow> 'a option" where
  "nth_opt xs i = (if i < length xs then Some (xs ! i) else None)"

text \<open>\<open>ToString\<close> of a value that is a string or \<open>undefined\<close>.\<close>

definition to_string :: "jsstring option \<Rightarrow> jsstring" where
  "to_string v = (case v of None \<Rightarrow> S ''undefined'' | Some s \<Rightarrow> s)"

text \<open>\<open>v || d\<close> for a value that is a string or \<open>undefined\<close>: the empty string is falsy.\<close>

definition str_or :: "jsstring option \<Rightarrow> jsstring \<Rightarrow> jsstring" where
  "str_or v d = (case v of None \<Rightarrow> d | Some s \<Rightarrow> if s = [] then d else s)"

subsection \<open>Numbers\<close>

datatype jsnum = NaN | PosInf | NegInf | Fin int int

text \<open>The finite value \<open>m * 2^e\<close> in lowest terms: an odd \<open>m\<close>, or zero.\<close>

function dyadic :: "int \<Rightarrow> int \<Rightarrow> jsnum" where
  "dyadic m e =
     (if m = 0 then Fin 0 0
      else if even m then dyadic (m div 2) (e + 1)
      else Fin m e)"
  by pat_completeness auto
termination
  by (relation "measure (\<lambda>(m, e). nat \<bar>m\<bar>)") auto

text \<open>The number of binary digits of \<open>n\<close> after the first: \<open>2^(ilog2 n) \<le> n < 2^(ilog2 n + 1)\<close>.\<close>

fun ilog2 :: "nat \<Rightarrow> nat" where
  "ilog2 n = (if n < 2 then 0 else Suc (ilog2 (n div 2)))"

text \<open>
  The binary exponent of \<open>a / q\<close> for positive \<open>a\<close> and \<open>q\<close>: the \<open>e\<close> with
  \<open>2^e \<le> a / q < 2^(e + 1)\<close>. The difference \<open>e0\<close> of the two digit counts is it, or one more.
\<close>

definition exponent_from :: "int \<Rightarrow> int \<Rightarrow> int \<Rightarrow> int" where
  "exponent_from a q e0 =
     (if (if 0 \<le> e0 then q * 2 ^ nat e0 \<le> a else q \<le> a * 2 ^ nat (- e0)) then e0 else e0 - 1)"

definition binexp :: "int \<Rightarrow> int \<Rightarrow> int" where
  "binexp a q = exponent_from a q (int (ilog2 (nat a)) - int (ilog2 (nat q)))"

text \<open>The integer nearest to \<open>n / d\<close> (for \<open>d > 0\<close>), the even one of two.\<close>

definition nearest_even :: "int \<Rightarrow> int \<Rightarrow> int" where
  "nearest_even n d =
     (if 2 * (n mod d) < d then n div d
      else if d < 2 * (n mod d) then n div d + 1
      else if even (n div d) then n div d else n div d + 1)"

text \<open>
  The last step of rounding: the significand \<open>m\<close> at exponent \<open>t\<close> overflows when \<open>m * 2^t\<close>
  reaches \<open>2^1024\<close>, that is, beyond \<open>t = 971\<close>, or at \<open>t = 971\<close> when \<open>m\<close> has been rounded up
  to \<open>2^53\<close>.
\<close>

definition pack :: "bool \<Rightarrow> int \<Rightarrow> int \<Rightarrow> jsnum" where
  "pack neg t m =
     (if 971 < t \<or> (t = 971 \<and> 2 ^ 53 \<le> m) then (if neg then NegInf else PosInf)
      else dyadic (if neg then - m else m) t)"

text \<open>Rounding of \<open>a / q\<close> to a multiple of \<open>2^t\<close>.\<close>

definition round_at :: "bool \<Rightarrow> int \<Rightarrow> int \<Rightarrow> int \<Rightarrow> jsnum" where
  "round_at neg a q t =
     pack neg t (if t < 0 then nearest_even (a * 2 ^ nat (- t)) q
                 else nearest_even a (q * 2 ^ nat t))"

text \<open>
  The binary64 value nearest to \<open>p / q\<close> (for \<open>q > 0\<close>), ties to even: 53 significant bits,
  least exponent \<open>-1022\<close> (below it the spacing stays \<open>2^-1074\<close>), overflow to an infinity
  when the rounded magnitude reaches \<open>2^1024\<close>.
\<close>

definition round_ratio :: "int \<Rightarrow> int \<Rightarrow> jsnum" where
  "round_ratio p q =
     (if p = 0 then Fin 0 0
      else round_at (p < 0) \<bar>p\<bar> q (max (binexp \<bar>p\<bar> q) (- 1022) - 52))"

text \<open>The binary64 value nearest to \<open>p / q * 2^k\<close>.\<close>

definition round_scaled :: "int \<Rightarrow> int \<Rightarrow> int \<Rightarrow> jsnum" where
  "round_scaled p q k =
     (if 0 \<le> k then round_ratio (p * 2 ^ nat k) q else round_ratio p (q * 2 ^ nat (- k)))"

text \<open>A number literal with an integer value.\<close>

definition num :: "int \<Rightarrow> jsnum" where
  "num n = round_ratio n 1"

text \<open>Tests on a number: is it \<open>NaN\<close>, is it an infinity, is it \<open>1\<close> or more.\<close>

fun is_nan :: "jsnum \<Rightarrow> bool" where
  "is_nan NaN = True"
| "is_nan _ = False"

fun is_infinite :: "jsnum \<Rightarrow> bool" where
  "is_infinite PosInf = True"
| "is_infinite NegInf = True"
| "is_infinite _ = False"

fun at_least_one :: "jsnum \<Rightarrow> bool" where
  "at_least_one (Fin m e) = (if 0 \<le> e then 1 \<le> m * 2 ^ nat e else 2 ^ nat (- e) \<le> m)"
| "at_least_one PosInf = True"
| "at_least_one _ = False"

text \<open>Truthiness of a number: \<open>0\<close> and \<open>NaN\<close> are falsy.\<close>

fun num_truthy :: "jsnum \<Rightarrow> bool" where
  "num_truthy NaN = False"
| "num_truthy (Fin m e) = (m \<noteq> 0)"
| "num_truthy PosInf = True"
| "num_truthy NegInf = True"

text \<open>\<open>a || d\<close> on numbers.\<close>

definition num_or :: "jsnum \<Rightarrow> jsnum \<Rightarrow> jsnum" where
  "num_or a d = (if num_truthy a then a else d)"

text \<open>\<open>a / b\<close>. A zero divisor counts as \<open>+0\<close>.\<close>

fun jdiv :: "jsnum \<Rightarrow> jsnum \<Rightarrow> jsnum" where
  "jdiv (Fin m1 e1) (Fin m2 e2) =
     (if m2 = 0 then (if m1 = 0 then NaN else if 0 < m1 then PosInf else NegInf)
      else round_scaled (if m2 < 0 then - m1 else m1) \<bar>m2\<bar> (e1 - e2))"
| "jdiv (Fin m1 e1) PosInf = Fin 0 0"
| "jdiv (Fin m1 e1) NegInf = Fin 0 0"
| "jdiv PosInf (Fin m2 e2) = (if m2 < 0 then NegInf else PosInf)"
| "jdiv NegInf (Fin m2 e2) = (if m2 < 0 then PosInf else NegInf)"
| "jdiv _ _ = NaN"

text \<open>\<open>a * b\<close>.\<close>

fun jmul :: "jsnum \<Rightarrow> jsnum \<Rightarrow> jsnum" where
  "jmul (Fin m1 e1) (Fin m2 e2) = round_scaled (m1 * m2) 1 (e1 + e2)"
| "jmul (Fin m1 e1) PosInf = (if m1 = 0 then NaN else if 0 < m1 then PosInf else NegInf)"
| "jmul (Fin m1 e1) NegInf = (if m1 = 0 then NaN else if 0 < m1 then NegInf else PosInf)"
| "jmul PosInf (Fin m2 e2) = (if m2 = 0 then NaN else if 0 < m2 then PosInf else NegInf)"
| "jmul NegInf (Fin m2 e2) = (if m2 = 0 then NaN else if 0 < m2 then NegInf else PosInf)"
| "jmul PosInf PosInf = PosInf"
| "jmul PosInf NegInf = NegInf"
| "jmul NegInf PosInf = NegInf"
| "jmul NegInf NegInf = PosInf"
| "jmul _ _ = NaN"

text \<open>\<open>Math.floor\<close>.\<close>

fun math_floor :: "jsnum \<Rightarrow> jsnum" where
  "math_floor (Fin m e) = (if 0 \<le> e then Fin m e else dyadic (m div 2 ^ nat (- e)) 0)"
| "math_floor v = v"

subsection \<open>\<open>parseInt\<close> and \<open>parseFloat\<close>\<close>

definition is_digit :: "nat \<Rightarrow> bool" where
  "is_digit c \<longleftrightarrow> 48 \<le> c \<and> c \<le> 57"

definition digit_val :: "nat \<Rightarrow> int" where
  "digit_val c = int c - 48"

definition is_hex_digit :: "nat \<Rightarrow> bool" where
  "is_hex_digit c \<longleftrightarrow> is_digit c \<or> (97 \<le> c \<and> c \<le> 102) \<or> (65 \<le> c \<and> c \<le> 70)"

definition hex_val :: "nat \<Rightarrow> int" where
  "hex_val c = (if is_digit c then int c - 48 else if 97 \<le> c then int c - 87 else int c - 55)"

definition digits_value :: "int \<Rightarrow> (nat \<Rightarrow> int) \<Rightarrow> jsstring \<Rightarrow> int" where
  "digits_value b val ds = foldl (\<lambda>acc c. acc * b + val c) 0 ds"

text \<open>
  \<open>parseInt(string)\<close> with no radix: leading whitespace is skipped, then an optional sign, an
  optional \<open>0x\<close> or \<open>0X\<close> (which selects radix 16), and the longest run of digits; \<open>NaN\<close> when
  that run is empty. The integer read is rounded to binary64.
\<close>

definition parse_int :: "jsstring \<Rightarrow> jsnum" where
  "parse_int input =
     (let s0 = trim_start input;
          neg = (s0 \<noteq> [] \<and> hd s0 = C CHR ''-'');
          s1 = (if s0 \<noteq> [] \<and> (hd s0 = C CHR ''+'' \<or> hd s0 = C CHR ''-'') then tl s0 else s0);
          hex = (prefix (S ''0x'') s1 \<or> prefix (S ''0X'') s1);
          s2 = (if hex then drop 2 s1 else s1);
          z = takeWhile (if hex then is_hex_digit else is_digit) s2
      in if z = [] then NaN
         else let n = (if hex then digits_value 16 hex_val z else digits_value 10 digit_val z)
              in round_ratio (if neg then - n else n) 1)"

text \<open>The value of an exponent part \<open>e\<close>/\<open>E\<close>, optional sign, digits; \<open>0\<close> when it is not complete.\<close>

definition exponent_part :: "jsstring \<Rightarrow> int" where
  "exponent_part r =
     (if r \<noteq> [] \<and> (hd r = C CHR ''e'' \<or> hd r = C CHR ''E'')
      then let r1 = tl r;
               eneg = (r1 \<noteq> [] \<and> hd r1 = C CHR ''-'');
               r2 = (if r1 \<noteq> [] \<and> (hd r1 = C CHR ''+'' \<or> hd r1 = C CHR ''-'') then tl r1 else r1);
               ds = takeWhile is_digit r2
           in if ds = [] then 0
              else if eneg then - digits_value 10 digit_val ds else digits_value 10 digit_val ds
      else 0)"

text \<open>
  \<open>parseFloat(string)\<close>: leading whitespace is skipped, then the longest prefix that is a
  decimal literal (optional sign, then \<open>Infinity\<close>, or digits with an optional fraction and an
  optional exponent) is read; \<open>NaN\<close> when there is none. The value is rounded to binary64.
\<close>

definition parse_float :: "jsstring \<Rightarrow> jsnum" where
  "parse_float input =
     (let s0 = trim_start input;
          neg = (s0 \<noteq> [] \<and> hd s0 = C CHR ''-'');
          s1 = (if s0 \<noteq> [] \<and> (hd s0 = C CHR ''+'' \<or> hd s0 = C CHR ''-'') then tl s0 else s0)
      in if prefix (S ''Infinity'') s1 then (if neg then NegInf else PosInf)
         else let ip = takeWhile is_digit s1;
                  r1 = dropWhile is_digit s1;
                  dot = (r1 \<noteq> [] \<and> hd r1 = C CHR ''.'');
                  fp = (if dot then takeWhile is_digit (tl r1) else []);
                  r2 = (if dot then dropWhile is_digit (tl r1) else r1)
              in if ip = [] \<and> fp = [] then NaN
                 else let d = digits_value 10 digit_val (ip @ fp);
                          sd = (if neg then - d else d);
                          x = exponent_part r2 - int (length fp)
                      in if 0 \<le> x then round_ratio (sd * 10 ^ nat x) 1
                         else round_ratio sd (10 ^ nat (- x)))"

subsection \<open>\<open>toFixed\<close>\<close>

text \<open>
  The text of a number. For a magnitude of \<open>10^21\<close> or more \<open>toFixed\<close> gives the text of
  \<open>Number::toString\<close>, in exponent notation; its digits are not spelled out here and the value
  is kept instead.
\<close>

datatype numtext = Txt jsstring | Exponential jsnum

fun dec_digits :: "nat \<Rightarrow> jsstring" where
  "dec_digits n = (if n < 10 then [48 + n] else dec_digits (n div 10) @ [48 + n mod 10])"

text \<open>
  \<open>x.toFixed(f)\<close>: \<open>n\<close> is the integer nearest to \<open>\<bar>x\<bar> * 10^f\<close>, the larger one of two; its
  digits are padded on the left with zeros to \<open>f + 1\<close> places and the point is put before the
  last \<open>f\<close>.
\<close>

definition to_fixed :: "nat \<Rightarrow> jsnum \<Rightarrow> numtext" where
  "to_fixed f x =
     (case x of
        NaN \<Rightarrow> Txt (S ''NaN'')
      | PosInf \<Rightarrow> Txt (S ''Infinity'')
      | NegInf \<Rightarrow> Txt (S ''-Infinity'')
      | Fin m e \<Rightarrow>
          (let a = \<bar>m\<bar>;
               pn = (if 0 \<le> e then a * 2 ^ nat e else a);
               qn = (if 0 \<le> e then 1 else 2 ^ nat (- e))
           in if 10 ^ 21 * qn \<le> pn then Exponential (Fin m e)
              else let n = nat ((2 * 10 ^ f * pn + qn) div (2 * qn));
                       ds = dec_digits n;
                       padded = replicate (f + 1 - length ds) (C CHR ''0'') @ ds;
                       k = length padded
                   in Txt ((if m < 0 then S ''-'' else [])
                           @ (if f = 0 then padded
                              else take (k - f) padded @ S ''.'' @ drop (k - f) padded))))"



subsection \<open>The request body\<close>

text \<open>
  \<open>request.json()\<close> gives any JSON value, and the route does not check its shape (\<open>body\<close> has
  type \<open>any\<close>). An object is the list of its properties, each key once, as \<open>JSON.parse\<close>
  leaves it.
\<close>

datatype json =
    JNull
  | JBool bool
  | JNum jsnum
  | JStr jsstring
  | JArr "json list"
  | JObj "(jsstring \<times> json) list"

text \<open>Truthiness of a value; \<open>undefined\<close> is \<open>None\<close>.\<close>

fun truthy :: "json option \<Rightarrow> bool" where
  "truthy None = False"
| "truthy (Some JNull) = False"
| "truthy (Some (JBool b)) = b"
| "truthy (Some (JNum n)) = num_truthy n"
| "truthy (Some (JStr s)) = (s \<noteq> [])"
| "truthy (Some (JArr xs)) = True"
| "truthy (Some (JObj kvs)) = True"

text \<open>
  \<open>body.key\<close> for a body that is not \<open>null\<close>: a property of an object, and \<open>undefined\<close> on a
  boolean, a number, a string or an array, none of which has one of the six names read here.
\<close>

fun get_property :: "json \<Rightarrow> jsstring \<Rightarrow> json option" where
  "get_property (JObj kvs) k = map_of kvs k"
| "get_property _ k = None"

subsection \<open>The outside world\<close>

text \<open>The object passed to \<open>ssh.connect\<close>; an absent field is \<open>None\<close>.\<close>

record connection_config =
  cfg_host :: json
  cfg_port :: json
  cfg_username :: json
  cfg_readyTimeout :: nat
  cfg_tryKeyboard :: bool
  cfg_password :: "json option"
  cfg_privateKeyPath :: "jsstring option"
  cfg_passphrase :: "json option"

text \<open>
  What a call into the platform can do. A thrown error is given by its \<open>message\<close>
  (\<open>None\<close> when it has none). A failing \<open>writeFileSync\<close> may leave a file behind, with some
  content; a failing \<open>unlinkSync\<close> leaves the file where it is (a file that may not be
  removed, a busy file, a read-only file system); a failing \<open>connect\<close> or \<open>execCommand\<close>
  leaves the session reporting itself connected or not.
\<close>

datatype write_outcome = WriteOk | WriteThrows "jsstring option" "jsstring option"

datatype unlink_outcome = UnlinkOk | UnlinkThrows "jsstring option"

datatype connect_outcome = ConnectOk | ConnectThrows "jsstring option" bool

datatype exec_outcome =
    ExecResult "int option" jsstring jsstring
  | ExecThrows "jsstring option" bool

text \<open>The two type errors the route itself can raise; their texts are the engine's.\<close>

datatype type_error = DestructureNull | ReplaceNotAFunction

record env =
  tmpdir :: jsstring
  date_now :: jsstring
  random_suffix :: jsstring
  write_file_sync :: "jsstring \<Rightarrow> jsstring \<Rightarrow> write_outcome"
  unlink_file_sync :: "jsstring \<Rightarrow> unlink_outcome"
  ssh_connect :: "connection_config \<Rightarrow> connect_outcome"
  ssh_exec :: "jsstring \<Rightarrow> exec_outcome"
  type_error_message :: "type_error \<Rightarrow> jsstring"

text \<open>What the route does to the world, in order.\<close>

datatype event =
    Mkdir jsstring
  | WriteFile jsstring jsstring
  | Connect connection_config
  | Exec jsstring
  | Dispose
  | Unlink jsstring

text \<open>
  The state a request runs in: the files on disk (path to content), whether the request's
  \<open>NodeSSH\<close> object reports itself connected, and the calls made so far.
\<close>

record state =
  files :: "jsstring \<Rightarrow> jsstring option"
  connected :: bool
  trace :: "event list"

definition log_event :: "event \<Rightarrow> state \<Rightarrow> state" where
  "log_event ev st = st\<lparr>trace := trace st @ [ev]\<rparr>"

text \<open>\<open>ssh.dispose()\<close>.\<close>

definition dispose :: "state \<Rightarrow> state" where
  "dispose st = log_event Dispose (st\<lparr>connected := False\<rparr>)"

text \<open>
  \<open>unlinkSync(path)\<close>: throws when there is no such file; for a file that is there, the
  platform says whether it is removed or the call throws and the file stays.
\<close>

definition unlink_sync :: "env \<Rightarrow> jsstring \<Rightarrow> state \<Rightarrow> jsstring option + state" where
  "unlink_sync env path st =
     (let st1 = log_event (Unlink path) st
      in if files st1 path = None then Inl (Some (S ''ENOENT: no such file or directory''))
         else (case unlink_file_sync env path of
                 UnlinkThrows message \<Rightarrow> Inl message
               | UnlinkOk \<Rightarrow> Inr (st1\<lparr>files := (files st1)(path := None)\<rparr>)))"

text \<open>
  \<open>if (keyFilePath) { try { unlinkSync(keyFilePath); } catch (e) { } }\<close>: the call is made
  for a path that is neither \<open>null\<close> nor empty, and its error is dropped.
\<close>

definition cleanup_key_file :: "env \<Rightarrow> jsstring option \<Rightarrow> state \<Rightarrow> state" where
  "cleanup_key_file env keyFilePath st =
     (case keyFilePath of
        None \<Rightarrow> st
      | Some path \<Rightarrow>
          if path = [] then st
          else (case unlink_sync env path st of
                  Inl e \<Rightarrow> log_event (Unlink path) st
                | Inr st1 \<Rightarrow> st1))"

text \<open>
  \<open>join(a, b)\<close> of \<open>path\<close>, as on a POSIX platform. The non-empty arguments are put together
  with \<open>/\<close> and the result is normalised: going through the segments between the slashes,
  an empty segment and \<open>.\<close> are dropped; \<open>..\<close> removes the segment kept last, unless there is
  none or it is \<open>..\<close> itself, and then it is kept in a relative path and dropped in an absolute
  one. A leading and a final \<open>/\<close> are kept, and a path left empty is \<open>.\<close> (\<open>/\<close> when absolute,
  \<open>./\<close> with a final slash). \<open>kept\<close> holds the segments kept so far, last first.
\<close>

fun normalizeString :: "bool \<Rightarrow> jsstring list \<Rightarrow> jsstring list \<Rightarrow> jsstring list" where
  "normalizeString allowAboveRoot kept [] = rev kept"
| "normalizeString allowAboveRoot kept (seg # segs) =
     (if seg = [] \<or> seg = S ''.'' then normalizeString allowAboveRoot kept segs
      else if seg = S ''..''
      then (if kept \<noteq> [] \<and> hd kept \<noteq> S ''..''
            then normalizeString allowAboveRoot (tl kept) segs
            else if allowAboveRoot then normalizeString allowAboveRoot (S ''..'' # kept) segs
            else normalizeString allowAboveRoot kept segs)
      else normalizeString allowAboveRoot (seg # kept) segs)"

definition path_normalize :: "jsstring \<Rightarrow> jsstring" where
  "path_normalize path =
     (if path = [] then S ''.''
      else
        (let isAbsolute = (hd path = 47);
             trailingSeparator = (last path = 47);
             p = join (S ''/'') (normalizeString (\<not> isAbsolute) [] (split (S ''/'') path))
         in if p = []
            then (if isAbsolute then S ''/'' else if trailingSeparator then S ''./'' else S ''.'')
            else (if isAbsolute then S ''/'' else []) @ p
                 @ (if trailingSeparator then S ''/'' else [])))"

definition path_join :: "jsstring \<Rightarrow> jsstring \<Rightarrow> jsstring" where
  "path_join a b =
     (let parts = filter (\<lambda>arg. arg \<noteq> []) [a, b]
      in if parts = [] then S ''.'' else path_normalize (join (S ''/'') parts))"

subsection \<open>The response\<close>

record process_row =
  p_user :: jsstring
  p_pid :: jsnum
  p_cpu :: jsnum
  p_mem :: jsnum
  p_vsz :: jsnum
  p_rss :: jsnum
  p_tty :: jsstring
  p_stat :: jsstring
  p_start :: jsstring
  p_time :: jsstring
  p_command :: jsstring

record cpu_info =
  cpu_usage :: numtext
  cpu_cores :: jsnum
  cpu_model :: jsstring
  cpu_speed :: jsnum

record memory_info =
  mem_total :: numtext
  mem_used :: numtext
  mem_free :: numtext
  mem_usagePercent :: numtext

record disk_info =
  disk_total :: numtext
  disk_used :: numtext
  disk_available :: numtext
  disk_usagePercent :: numtext

record network_info =
  net_download :: jsstring
  net_upload :: jsstring

record system_info =
  sys_platform :: jsstring
  sys_distro :: jsstring
  sys_arch :: jsstring
  sys_hostname :: json
  sys_uptime :: jsnum

record processes_info =
  proc_all :: jsnum
  proc_running :: jsnum
  proc_blocked :: jsnum
  proc_list :: "process_row list"

record system_data =
  cpu :: cpu_info
  memory :: memory_info
  disk :: disk_info
  network :: network_info
  system :: system_info
  processes :: processes_info

text \<open>\<open>NextResponse.json(data)\<close> (status 200) or \<open>NextResponse.json({error}, {status})\<close>.\<close>

datatype response = Snapshot system_data | ErrorResponse jsstring nat

record outcome =
  response :: response
  final :: state
  key_file :: "jsstring option"

subsection \<open>Texts of the route\<close>

definition quoted :: "jsstring \<Rightarrow> jsstring" where
  "quoted s = [39] @ s @ [39]"

definition awk_print :: "string \<Rightarrow> jsstring" where
  "awk_print field = S ''awk '' @ quoted (S ''{print '' @ S field @ S ''}'')"

definition commands :: "jsstring list" where
  "commands =
     [S ''grep '' @ quoted (S ''cpu '') @ S '' /proc/stat | awk ''
        @ quoted (S ''{usage=($2+$4)*100/($2+$4+$5)} END {print usage}''),
      S ''nproc'',
      S ''lscpu | grep '' @ quoted (S ''Model name'') @ S '' | cut -d'' @ quoted (S '':'')
        @ S '' -f2 | xargs'',
      S ''free -b | grep Mem | '' @ awk_print ''$2'',
      S ''free -b | grep Mem | '' @ awk_print ''$3'',
      S ''free -b | grep Mem | '' @ awk_print ''$4'',
      S ''df -B1 / | tail -1 | '' @ awk_print ''$2'',
      S ''df -B1 / | tail -1 | '' @ awk_print ''$3'',
      S ''df -B1 / | tail -1 | '' @ awk_print ''$4'',
      S ''df -h / | tail -1 | '' @ awk_print ''$5'' @ S '' | sed '' @ quoted (S ''s/%//''),
      S ''uname -s'',
      S ''cat /etc/os-release | grep PRETTY_NAME | cut -d'' @ quoted [34] @ S '' -f2'',
      S ''uname -m'',
      S ''hostname'',
      S ''cat /proc/uptime | '' @ awk_print ''$1'',
      S ''ps aux | wc -l'',
      S ''ps aux | grep -v '' @ quoted (S ''Z'') @ S '' | wc -l'']"

definition fullCommand :: jsstring where
  "fullCommand = join (S ''; echo '' @ [34] @ S ''---'' @ [34] @ S ''; '') commands"

definition topProcessesCmd :: jsstring where
  "topProcessesCmd = S ''ps aux --sort=-%cpu | head -n 21 | tail -n +2''"

definition invalid_body_text :: jsstring where
  "invalid_body_text = S ''Invalid request body''"

definition missing_fields_text :: jsstring where
  "missing_fields_text = S ''Missing required fields: host, username''"

definition missing_credential_text :: jsstring where
  "missing_credential_text = S ''Either private key or password is required''"

text \<open>The arrow in the third step is the code unit \<open>0x2192\<close>.\<close>

definition ppk_detected_text :: jsstring where
  "ppk_detected_text =
     S ''PPK format detected. Please convert to OpenSSH format:'' @ [10, 10]
     @ S ''1. Open PuTTYgen'' @ [10]
     @ S ''2. Load your .ppk file'' @ [10]
     @ S ''3. Go to Conversions '' @ [8594] @ S '' Export OpenSSH key'' @ [10]
     @ S ''4. Save and upload the converted .pem file'' @ [10, 10]
     @ S ''Or use command: puttygen yourkey.ppk -O private-openssh -o yourkey.pem''"

definition probe_failed_text :: jsstring where
  "probe_failed_text = S ''Failed to execute system commands''"

definition default_error_text :: jsstring where
  "default_error_text = S ''Failed to fetch remote system info''"

definition auth_failed_text :: jsstring where
  "auth_failed_text = S ''Authentication failed. Please check your username and private key.''"

definition timeout_text :: jsstring where
  "timeout_text = S ''Connection timeout. Please check the host and port.''"

definition refused_text :: jsstring where
  "refused_text = S ''Connection refused. Please check if SSH is running on the remote host.''"

definition unsupported_key_text :: jsstring where
  "unsupported_key_text =
     S ''Unsupported private key format. Please convert your PPK file to OpenSSH format:''
     @ [10, 10]
     @ S ''1. Open PuTTYgen'' @ [10]
     @ S ''2. Load your .ppk file (Conversions > Import key)'' @ [10]
     @ S ''3. Go to Conversions > Export OpenSSH key'' @ [10]
     @ S ''4. Save the file and use it here'' @ [10, 10]
     @ S ''Or use command line: puttygen yourkey.ppk -O private-openssh -o yourkey.pem''"

subsection \<open>The \<open>catch\<close> block\<close>

text \<open>
  \<open>errorMessage\<close>: the error's own message, or a default when it has none or an empty one,
  replaced by a fixed text when the message contains one of the known fragments.
\<close>

definition message_includes :: "jsstring option \<Rightarrow> jsstring \<Rightarrow> bool" where
  "message_includes message sub = (case message of None \<Rightarrow> False | Some m \<Rightarrow> includes_str m sub)"

definition errorMessage :: "jsstring option \<Rightarrow> jsstring" where
  "errorMessage message =
     (if message_includes message (S ''All configured authentication methods failed'')
      then auth_failed_text
      else if message_includes message (S ''Timed out'') then timeout_text
      else if message_includes message (S ''ECONNREFUSED'') then refused_text
      else if message_includes message (S ''Unsupported key format'')
              \<or> message_includes message (S ''Cannot parse privateKey'')
      then unsupported_key_text
      else str_or message default_error_text)"

text \<open>
  The \<open>catch\<close> block: the session is disposed of if it reports itself connected, the key
  file is removed if its path has been set, and the answer has status 500.
\<close>

definition catch_block ::
  "env \<Rightarrow> jsstring option \<Rightarrow> jsstring option \<Rightarrow> state \<Rightarrow> outcome" where
  "catch_block env keyFilePath message st =
     (let st1 = (if connected st then dispose st else st);
          st2 = cleanup_key_file env keyFilePath st1
      in \<lparr>response = ErrorResponse (errorMessage message) 500, final = st2,
          key_file = keyFilePath\<rparr>)"

text \<open>An early \<open>return NextResponse.json({error}, {status: 400})\<close>.\<close>

definition bad_request :: "jsstring \<Rightarrow> jsstring option \<Rightarrow> state \<Rightarrow> outcome" where
  "bad_request text keyFilePath st =
     \<lparr>response = ErrorResponse text 400, final = st, key_file = keyFilePath\<rparr>"

subsection \<open>Parsing the scalar probe\<close>

definition results :: "jsstring \<Rightarrow> jsstring list" where
  "results stdout = map trim (split (S ''---'') (trim stdout))"

definition cpuUsage :: "jsstring list \<Rightarrow> jsnum" where
  "cpuUsage rs = num_or (parse_float (to_string (nth_opt rs 0))) (num 0)"

definition cpuCores :: "jsstring list \<Rightarrow> jsnum" where
  "cpuCores rs = num_or (parse_int (to_string (nth_opt rs 1))) (num 1)"

definition cpuModel :: "jsstring list \<Rightarrow> jsstring" where
  "cpuModel rs = str_or (nth_opt rs 2) (S ''Unknown'')"

definition memTotal :: "jsstring list \<Rightarrow> jsnum" where
  "memTotal rs = num_or (parse_int (to_string (nth_opt rs 3))) (num 1)"

definition memUsed :: "jsstring list \<Rightarrow> jsnum" where
  "memUsed rs = num_or (parse_int (to_string (nth_opt rs 4))) (num 0)"

definition memFree :: "jsstring list \<Rightarrow> jsnum" where
  "memFree rs = num_or (parse_int (to_string (nth_opt rs 5))) (num 0)"

definition diskTotal :: "jsstring list \<Rightarrow> jsnum" where
  "diskTotal rs = num_or (parse_int (to_string (nth_opt rs 6))) (num 1)"

definition diskUsed :: "jsstring list \<Rightarrow> jsnum" where
  "diskUsed rs = num_or (parse_int (to_string (nth_opt rs 7))) (num 0)"

definition diskAvailable :: "jsstring list \<Rightarrow> jsnum" where
  "diskAvailable rs = num_or (parse_int (to_string (nth_opt rs 8))) (num 0)"

definition diskUsagePercent :: "jsstring list \<Rightarrow> jsnum" where
  "diskUsagePercent rs = num_or (parse_float (to_string (nth_opt rs 9))) (num 0)"

definition platform :: "jsstring list \<Rightarrow> jsstring" where
  "platform rs = str_or (nth_opt rs 10) (S ''Linux'')"

definition distro :: "jsstring list \<Rightarrow> jsstring" where
  "distro rs = str_or (nth_opt rs 11) (S ''Unknown'')"

definition arch :: "jsstring list \<Rightarrow> jsstring" where
  "arch rs = str_or (nth_opt rs 12) (S ''Unknown'')"

text \<open>\<open>results[13] || host\<close>: the request's \<open>host\<close>, whatever its type, when the field is empty.\<close>

definition hostname :: "json \<Rightarrow> jsstring list \<Rightarrow> json" where
  "hostname host rs =
     (case nth_opt rs 13 of None \<Rightarrow> host | Some s \<Rightarrow> if s = [] then host else JStr s)"

definition uptime :: "jsstring list \<Rightarrow> jsnum" where
  "uptime rs = num_or (parse_float (to_string (nth_opt rs 14))) (num 0)"

definition processesAll :: "jsstring list \<Rightarrow> jsnum" where
  "processesAll rs = num_or (parse_int (to_string (nth_opt rs 15))) (num 0)"

definition processesRunning :: "jsstring list \<Rightarrow> jsnum" where
  "processesRunning rs = num_or (parse_int (to_string (nth_opt rs 16))) (num 0)"

subsection \<open>Parsing the process table\<close>

text \<open>The function mapped over the lines: \<open>null\<close> (here \<open>None\<close>) for fewer than 11 columns.\<close>

definition process_line :: "jsstring \<Rightarrow> process_row option" where
  "process_line line =
     (let parts = split_ws (trim line)
      in if length parts < 11 then None
         else Some \<lparr>p_user = parts ! 0,
                    p_pid = parse_int (parts ! 1),
                    p_cpu = parse_float (parts ! 2),
                    p_mem = parse_float (parts ! 3),
                    p_vsz = parse_int (parts ! 4),
                    p_rss = parse_int (parts ! 5),
                    p_tty = parts ! 6,
                    p_stat = parts ! 7,
                    p_start = parts ! 8,
                    p_time = parts ! 9,
                    p_command = take 50 (join (S '' '') (drop 10 parts))\<rparr>)"

definition top_processes :: "jsstring \<Rightarrow> process_row list" where
  "top_processes stdout =
     take 20 (map the (filter (\<lambda>p. p \<noteq> None)
       (map process_line (filter (\<lambda>line. trim line \<noteq> []) (split [10] stdout)))))"

subsection \<open>The snapshot\<close>

text \<open>\<open>1024 ** 3\<close>.\<close>

definition gib :: jsnum where
  "gib = num (1024 ^ 3)"

definition systemData :: "json \<Rightarrow> jsstring \<Rightarrow> jsstring \<Rightarrow> system_data" where
  "systemData host stdout processes_stdout =
     (let rs = results stdout
      in \<lparr>cpu = \<lparr>cpu_usage = to_fixed 2 (cpuUsage rs), cpu_cores = cpuCores rs,
                  cpu_model = cpuModel rs, cpu_speed = num 0\<rparr>,
          memory = \<lparr>mem_total = to_fixed 2 (jdiv (memTotal rs) gib),
                     mem_used = to_fixed 2 (jdiv (memUsed rs) gib),
                     mem_free = to_fixed 2 (jdiv (memFree rs) gib),
                     mem_usagePercent =
                       to_fixed 2 (jmul (jdiv (memUsed rs) (memTotal rs)) (num 100))\<rparr>,
          disk = \<lparr>disk_total = to_fixed 2 (jdiv (diskTotal rs) gib),
                   disk_used = to_fixed 2 (jdiv (diskUsed rs) gib),
                   disk_available = to_fixed 2 (jdiv (diskAvailable rs) gib),
                   disk_usagePercent = to_fixed 2 (diskUsagePercent rs)\<rparr>,
          network = \<lparr>net_download = S ''0.00'', net_upload = S ''0.00''\<rparr>,
          system = \<lparr>sys_platform = platform rs, sys_distro = distro rs, sys_arch = arch rs,
                     sys_hostname = hostname host rs, sys_uptime = math_floor (uptime rs)\<rparr>,
          processes = \<lparr>proc_all = processesAll rs, proc_running = processesRunning rs,
                        proc_blocked = num 0,
                        proc_list = top_processes processes_stdout\<rparr>\<rparr>)"

subsection \<open>The handler\<close>

text \<open>
  After both commands have returned: the session is disposed of and the key file removed,
  and only then is the exit code of the first command looked at. Any code but \<open>0\<close> (also
  \<open>null\<close>, here \<open>None\<close>) throws, into the \<open>catch\<close> block; the exit code of the second
  command is not read.
\<close>

definition after_probes ::
  "env \<Rightarrow> json \<Rightarrow> jsstring option \<Rightarrow> int option \<Rightarrow> jsstring \<Rightarrow> jsstring \<Rightarrow> state
   \<Rightarrow> outcome" where
  "after_probes env host keyFilePath code stdout processes_stdout st =
     (let st1 = dispose st;
          st2 = cleanup_key_file env keyFilePath st1
      in if code \<noteq> Some 0 then catch_block env keyFilePath (Some probe_failed_text) st2
         else \<lparr>response = Snapshot (systemData host stdout processes_stdout), final = st2,
               key_file = keyFilePath\<rparr>)"

text \<open>From \<open>await ssh.connect(connectionConfig)\<close> on.\<close>

definition connect_and_probe ::
  "env \<Rightarrow> json \<Rightarrow> jsstring option \<Rightarrow> connection_config \<Rightarrow> state \<Rightarrow> outcome" where
  "connect_and_probe env host keyFilePath config st =
     (let st1 = log_event (Connect config) st
      in case ssh_connect env config of
           ConnectThrows message still \<Rightarrow>
             catch_block env keyFilePath message (st1\<lparr>connected := still\<rparr>)
         | ConnectOk \<Rightarrow>
             (let st2 = log_event (Exec fullCommand) (st1\<lparr>connected := True\<rparr>)
              in case ssh_exec env fullCommand of
                   ExecThrows message still \<Rightarrow>
                     catch_block env keyFilePath message (st2\<lparr>connected := still\<rparr>)
                 | ExecResult code stdout stderr \<Rightarrow>
                     (let st3 = log_event (Exec topProcessesCmd) st2
                      in case ssh_exec env topProcessesCmd of
                           ExecThrows message still \<Rightarrow>
                             catch_block env keyFilePath message (st3\<lparr>connected := still\<rparr>)
                         | ExecResult pcode pstdout pstderr \<Rightarrow>
                             after_probes env host keyFilePath code stdout pstdout st3)))"

text \<open>The key as written to disk: escaped and mixed line ends become \<open>\n\<close>, then \<open>trim\<close>.\<close>

definition processedKey :: "jsstring \<Rightarrow> jsstring" where
  "processedKey privateKey =
     trim (replace_all [13] [10] (replace_all [13, 10] [10]
       (replace_all [92, 110] [10] privateKey)))"

definition tempDir :: "env \<Rightarrow> jsstring" where
  "tempDir env = path_join (tmpdir env) (S ''ssh-keys'')"

definition new_key_path :: "env \<Rightarrow> jsstring" where
  "new_key_path env =
     path_join (tempDir env) (S ''key-'' @ date_now env @ S ''-'' @ random_suffix env)"

text \<open>
  The configuration of key-based authentication: the path of the key file, and the
  passphrase when there is one.
\<close>

definition key_config :: "env \<Rightarrow> json option \<Rightarrow> connection_config \<Rightarrow> connection_config" where
  "key_config env passphrase config =
     config\<lparr>cfg_privateKeyPath := Some (new_key_path env),
            cfg_passphrase := (if truthy passphrase then passphrase else None)\<rparr>"

text \<open>
  The key branch. A truthy \<open>privateKey\<close> that is not a string has no \<open>replace\<close> method, and
  the call throws. \<open>keyFilePath\<close> is assigned before \<open>writeFileSync\<close> is called, so the
  \<open>catch\<close> block sees it when the write throws.
\<close>

definition key_auth ::
  "env \<Rightarrow> json \<Rightarrow> json \<Rightarrow> json option \<Rightarrow> connection_config \<Rightarrow> state \<Rightarrow> outcome" where
  "key_auth env host privateKey passphrase config st =
     (case privateKey of
        JStr k \<Rightarrow>
          if includes_str (processedKey k) (S ''PuTTY-User-Key-File'')
          then bad_request ppk_detected_text None st
          else
            (let st1 = log_event (Mkdir (tempDir env)) st;
                 keyFilePath = new_key_path env;
                 st2 = log_event (WriteFile keyFilePath (processedKey k)) st1
             in case write_file_sync env keyFilePath (processedKey k) of
                  WriteThrows message left \<Rightarrow>
                    catch_block env (Some keyFilePath) message
                      (case left of
                         None \<Rightarrow> st2
                       | Some content \<Rightarrow> st2\<lparr>files := (files st2)(keyFilePath \<mapsto> content)\<rparr>)
                | WriteOk \<Rightarrow>
                    connect_and_probe env host (Some keyFilePath)
                      (key_config env passphrase config)
                      (st2\<lparr>files := (files st2)(keyFilePath \<mapsto> processedKey k)\<rparr>))
      | _ \<Rightarrow> catch_block env None (Some (type_error_message env ReplaceNotAFunction)) st)"

text \<open>The object \<open>connectionConfig\<close> as first built: \<open>port || 22\<close>, no credential yet.\<close>

definition connectionConfig :: "json option \<Rightarrow> json option \<Rightarrow> json option \<Rightarrow> connection_config" where
  "connectionConfig host port username =
     \<lparr>cfg_host = the host,
      cfg_port = (if truthy port then the port else JNum (num 22)),
      cfg_username = the username,
      cfg_readyTimeout = 15000,
      cfg_tryKeyboard = True,
      cfg_password = None,
      cfg_privateKeyPath = None,
      cfg_passphrase = None\<rparr>"

text \<open>The state when the handler starts: the session object is new, hence not connected.\<close>

definition initial_state :: "(jsstring \<Rightarrow> jsstring option) \<Rightarrow> state" where
  "initial_state disk0 = \<lparr>files = disk0, connected = False, trace = []\<rparr>"

text \<open>
  \<open>POST\<close>. The arguments are the platform, the files on disk when the request arrives, and
  the result of \<open>request.json()\<close> (\<open>None\<close> when it throws). Destructuring \<open>null\<close> throws
  inside the outer \<open>try\<close>. \<open>host\<close> and \<open>username\<close> are read with \<open>the\<close> only after they have
  been found truthy.
\<close>

definition POST :: "env \<Rightarrow> (jsstring \<Rightarrow> jsstring option) \<Rightarrow> json option \<Rightarrow> outcome" where
  "POST env disk0 request_json =
     (let st = initial_state disk0
      in case request_json of
           None \<Rightarrow> bad_request invalid_body_text None st
         | Some body \<Rightarrow>
             if body = JNull
             then catch_block env None (Some (type_error_message env DestructureNull)) st
             else
               (let host = get_property body (S ''host'');
                    port = get_property body (S ''port'');
                    username = get_property body (S ''username'');
                    privateKey = get_property body (S ''privateKey'');
                    passphrase = get_property body (S ''passphrase'');
                    password = get_property body (S ''password'')
                in if \<not> truthy host \<or> \<not> truthy username
                   then bad_request missing_fields_text None st
                   else if \<not> truthy privateKey \<and> \<not> truthy password
                   then bad_request missing_credential_text None st
                   else if truthy password \<and> \<not> truthy privateKey
                   then connect_and_probe env (the host) None
                          ((connectionConfig host port username)\<lparr>cfg_password := password\<rparr>) st
                   else if truthy privateKey
                   then key_auth env (the host) (the privateKey) passphrase
                          (connectionConfig host port username) st
                   else connect_and_probe env (the host) None
                          (connectionConfig host port username) st))"

subsection \<open>Example platforms, requests and outputs\<close>

text \<open>
  A platform with fixed answers: the write, the connect, the first command and the second
  command do what the four arguments say, and a file that is there can be removed.
\<close>

definition env_with ::
  "write_outcome \<Rightarrow> connect_outcome \<Rightarrow> exec_outcome \<Rightarrow> exec_outcome \<Rightarrow> env" where
  "env_with w c scalar procs =
     \<lparr>tmpdir = S ''/tmp'', date_now = S ''1700000000000'', random_suffix = S ''k3x9q'',
      write_file_sync = (\<lambda>path content. w),
      unlink_file_sync = (\<lambda>path. UnlinkOk),
      ssh_connect = (\<lambda>config. c),
      ssh_exec = (\<lambda>command. if command = topProcessesCmd then procs else scalar),
      type_error_message = (\<lambda>e. S ''TypeError'')\<rparr>"

text \<open>The same platform, on which \<open>unlinkSync\<close> throws: the file may not be removed.\<close>

definition unlink_throws :: "env \<Rightarrow> env" where
  "unlink_throws env =
     env\<lparr>unlink_file_sync := (\<lambda>path. UnlinkThrows (Some (S ''EPERM: operation not permitted'')))\<rparr>"

definition request_with :: "(string \<times> jsstring) list \<Rightarrow> json" where
  "request_with kvs = JObj (map (\<lambda>(k, v). (S k, JStr v)) kvs)"

definition password_request :: json where
  "password_request =
     request_with [(''host'', S ''10.0.0.5''), (''username'', S ''root''), (''password'', S ''x'')]"

text \<open>A key with an escaped line end (\<open>\n\<close> as two characters) and a trailing CR LF.\<close>

definition key_text :: jsstring where
  "key_text = S ''BEGIN'' @ [92, 110] @ S ''AAAA'' @ [13, 10]"

definition key_request :: json where
  "key_request =
     request_with [(''host'', S ''10.0.0.5''), (''username'', S ''root''),
                   (''privateKey'', key_text)]"

definition key_and_password_request :: json where
  "key_and_password_request =
     request_with [(''host'', S ''10.0.0.5''), (''username'', S ''root''),
                   (''password'', S ''x''), (''privateKey'', key_text),
                   (''passphrase'', S ''pp'')]"

definition ppk_text :: jsstring where
  "ppk_text = S ''PuTTY-User-Key-File-2: ssh-rsa''"

definition ppk_request :: json where
  "ppk_request =
     request_with [(''host'', S ''10.0.0.5''), (''username'', S ''root''),
                   (''privateKey'', ppk_text)]"

definition ppk_without_host_request :: json where
  "ppk_without_host_request = request_with [(''privateKey'', ppk_text)]"

definition ppk_and_password_request :: json where
  "ppk_and_password_request =
     request_with [(''host'', S ''10.0.0.5''), (''username'', S ''root''),
                   (''password'', S ''x''), (''privateKey'', ppk_text)]"

text \<open>
  An output of the first command: 17 fields, each followed by a line end, with the line
  \<open>---\<close> between them. Total memory is 8589934592 bytes, used memory 4294967296.
\<close>

definition sample_fields :: "jsstring list" where
  "sample_fields =
     [S ''12.5'', S ''4'', S ''Xeon'', S ''8589934592'', S ''4294967296'', S ''2147483648'',
      S ''107374182400'', S ''53687091200'', S ''53687091200'', S ''50'', S ''Linux'',
      S ''Ubuntu'', S ''x86_64'', S ''web-01'', S ''86400.5'', S ''213'', S ''210'']"

definition sample_stdout :: jsstring where
  "sample_stdout = join ([10] @ S ''---'' @ [10]) sample_fields @ [10]"

text \<open>Two lines of \<open>ps aux\<close>: one with 11 columns and one with 12.\<close>

definition sample_process_line :: jsstring where
  "sample_process_line = S ''root 1 0.0 0.1 1000 500 ? Ss 10:00 0:01 /sbin/init''"

definition sample_processes :: jsstring where
  "sample_processes =
     sample_process_line @ [10]
     @ S ''www  812 1.5 2.0 2000 900 ? S  10:02 0:07 nginx: worker'' @ [10]"

text \<open>An output of the first command whose total-memory field carries a minus sign.\<close>

definition negative_total_fields :: "jsstring list" where
  "negative_total_fields = [S ''12.5'', S ''4'', S ''Xeon'', S ''-5'', S ''10'']"

definition negative_total_stdout :: jsstring where
  "negative_total_stdout = join ([10] @ S ''---'' @ [10]) negative_total_fields @ [10]"

text \<open>Fields whose used and total memory are runs of 310 digits \<open>9\<close>.\<close>

definition long_digits :: jsstring where
  "long_digits = replicate 310 57"

definition overflow_fields :: "jsstring list" where
  "overflow_fields = [S ''12.5'', S ''4'', S ''Xeon'', long_digits, long_digits]"

text \<open>A line whose command, with its arguments, is longer than 50 characters.\<close>

definition long_process_line :: jsstring where
  "long_process_line =
     S ''app 4242 9.5 3.0 900000 120000 ? Sl 09:15 12:34 ''
     @ S ''/usr/bin/node /srv/app/server.js --port 8080 --workers 4 --verbose''"

section \<open>Properties\<close>

subsection \<open>Evaluation of number literals\<close>

text \<open>
  The recursive equations of these functions are unfolded only where a proof asks for them.
\<close>

declare ilog2.simps [simp del] dyadic.simps [simp del] dec_digits.simps [simp del]
  split_ws.simps [simp del]

lemmas rounding_defs =
  num_def round_ratio_def round_at_def pack_def nearest_even_def binexp_def exponent_from_def
  round_scaled_def ilog2.simps dyadic.simps

lemma num_0: "num 0 = Fin 0 0" by (simp add: rounding_defs)
lemma num_1: "num 1 = Fin 1 0" by (simp add: rounding_defs)
lemma num_22: "num 22 = Fin 11 1" by (simp add: rounding_defs)
lemma num_100: "num 100 = Fin 25 2" by (simp add: rounding_defs)

subsection \<open>Clean-up: the key file and the session\<close>

lemma path_join_nonempty: "path_join a b \<noteq> []"
  by (simp add: path_join_def path_normalize_def Let_def)

lemma new_key_path_nonempty: "new_key_path env \<noteq> []"
  by (simp add: new_key_path_def path_join_nonempty)

lemma cleanup_connected: "connected (cleanup_key_file env k st) = connected st"
  by (simp add: cleanup_key_file_def unlink_sync_def log_event_def Let_def
      split: option.splits unlink_outcome.splits)

lemma cleanup_removes:
  "p \<noteq> [] \<Longrightarrow> unlink_file_sync env p = UnlinkOk
   \<Longrightarrow> files (cleanup_key_file env (Some p) st) p = None"
  by (simp add: cleanup_key_file_def unlink_sync_def log_event_def Let_def)

lemma cleanup_attempts:
  "p \<noteq> [] \<Longrightarrow> Unlink p \<in> set (trace (cleanup_key_file env (Some p) st))"
  by (simp add: cleanup_key_file_def unlink_sync_def log_event_def Let_def
      split: unlink_outcome.splits)

lemma cleanup_files:
  "files (cleanup_key_file env k st) q = files st q \<or> files (cleanup_key_file env k st) q = None"
  by (simp add: cleanup_key_file_def unlink_sync_def log_event_def Let_def
      split: option.splits unlink_outcome.splits)

lemma cleanup_keeps:
  "unlink_file_sync env p = UnlinkThrows e
   \<Longrightarrow> files (cleanup_key_file env (Some p) st) q = files st q"
  by (simp add: cleanup_key_file_def unlink_sync_def log_event_def Let_def)

lemma cleanup_keeps_absent:
  "files st q = None \<Longrightarrow> files (cleanup_key_file env k st) q = None"
  by (simp add: cleanup_key_file_def unlink_sync_def log_event_def Let_def
      split: option.splits unlink_outcome.splits)

lemma cleanup_trace:
  "set (trace (cleanup_key_file env k st)) \<subseteq> set (trace st) \<union> range Unlink"
  by (auto simp add: cleanup_key_file_def unlink_sync_def log_event_def Let_def
      split: option.splits unlink_outcome.splits)

lemma catch_block_connected: "\<not> connected (final (catch_block env k m st))"
  by (simp add: catch_block_def Let_def cleanup_connected dispose_def log_event_def)

lemma catch_block_response: "response (catch_block env k m st) = ErrorResponse (errorMessage m) 500"
  by (simp add: catch_block_def Let_def)

lemma catch_block_key_file: "key_file (catch_block env k m st) = k"
  by (simp add: catch_block_def Let_def)

lemma catch_block_removes:
  "p \<noteq> [] \<Longrightarrow> unlink_file_sync env p = UnlinkOk
   \<Longrightarrow> files (final (catch_block env (Some p) m st)) p = None"
  by (simp add: catch_block_def Let_def cleanup_removes)

lemma catch_block_attempts:
  "p \<noteq> [] \<Longrightarrow> Unlink p \<in> set (trace (final (catch_block env (Some p) m st)))"
  by (simp add: catch_block_def Let_def cleanup_attempts)

lemma catch_block_keeps:
  "unlink_file_sync env p = UnlinkThrows e
   \<Longrightarrow> files (final (catch_block env (Some p) m st)) q = files st q"
  by (simp add: catch_block_def Let_def cleanup_keeps dispose_def log_event_def)

lemma catch_block_trace:
  "set (trace (final (catch_block env k m st))) \<subseteq> set (trace st) \<union> {Dispose} \<union> range Unlink"
  using cleanup_trace [of env k "dispose st"] cleanup_trace [of env k st]
  by (auto simp add: catch_block_def Let_def dispose_def log_event_def)

lemma after_probes_connected: "\<not> connected (final (after_probes env host k code out pout st))"
  by (simp add: after_probes_def Let_def catch_block_connected cleanup_connected dispose_def log_event_def)

lemma after_probes_key_file: "key_file (after_probes env host k code out pout st) = k"
  by (simp add: after_probes_def Let_def catch_block_key_file)

lemma after_probes_removes:
  "p \<noteq> [] \<Longrightarrow> unlink_file_sync env p = UnlinkOk
   \<Longrightarrow> files (final (after_probes env host (Some p) code out pout st)) p = None"
  by (simp add: after_probes_def Let_def catch_block_removes cleanup_removes)

lemma after_probes_attempts:
  "p \<noteq> [] \<Longrightarrow> Unlink p \<in> set (trace (final (after_probes env host (Some p) code out pout st)))"
  by (simp add: after_probes_def Let_def catch_block_attempts cleanup_attempts)

lemma after_probes_keeps:
  "unlink_file_sync env p = UnlinkThrows e
   \<Longrightarrow> files (final (after_probes env host (Some p) code out pout st)) q = files st q"
  by (simp add: after_probes_def Let_def catch_block_keeps cleanup_keeps dispose_def
      log_event_def)

lemma after_probes_trace:
  "set (trace (final (after_probes env host k code out pout st)))
     \<subseteq> set (trace st) \<union> {Dispose} \<union> range Unlink"
  using cleanup_trace [of env k "dispose st"]
    catch_block_trace [of env k "Some probe_failed_text" "cleanup_key_file env k (dispose st)"]
  by (auto simp add: after_probes_def Let_def dispose_def log_event_def)

lemma connect_and_probe_connected:
  "\<not> connected (final (connect_and_probe env host k config st))"
  by (simp add: connect_and_probe_def Let_def catch_block_connected after_probes_connected
      split: connect_outcome.splits exec_outcome.splits)

lemma connect_and_probe_key_file:
  "key_file (connect_and_probe env host k config st) = k"
  by (simp add: connect_and_probe_def Let_def catch_block_key_file after_probes_key_file
      split: connect_outcome.splits exec_outcome.splits)

lemma connect_and_probe_removes:
  "p \<noteq> [] \<Longrightarrow> unlink_file_sync env p = UnlinkOk
   \<Longrightarrow> files (final (connect_and_probe env host (Some p) config st)) p = None"
  by (simp add: connect_and_probe_def Let_def catch_block_removes after_probes_removes
      split: connect_outcome.splits exec_outcome.splits)

lemma connect_and_probe_attempts:
  "p \<noteq> [] \<Longrightarrow> Unlink p \<in> set (trace (final (connect_and_probe env host (Some p) config st)))"
  by (simp add: connect_and_probe_def Let_def catch_block_attempts after_probes_attempts
      split: connect_outcome.splits exec_outcome.splits)

lemma connect_and_probe_keeps:
  "unlink_file_sync env p = UnlinkThrows e
   \<Longrightarrow> files (final (connect_and_probe env host (Some p) config st)) q = files st q"
  by (simp add: connect_and_probe_def Let_def catch_block_keeps after_probes_keeps log_event_def
      split: connect_outcome.splits exec_outcome.splits)

lemma connect_and_probe_trace:
  "set (trace (final (connect_and_probe env host k config st)))
     \<subseteq> set (trace st) \<union> {Connect config, Exec fullCommand, Exec topProcessesCmd, Dispose}
       \<union> range Unlink"
proof (cases "ssh_connect env config")
  case (ConnectThrows m still)
  then show ?thesis
    using catch_block_trace [of env k m "(log_event (Connect config) st)\<lparr>connected := still\<rparr>"]
    by (auto simp add: connect_and_probe_def Let_def log_event_def)
next
  case ConnectOk
  note ok = this
  show ?thesis
  proof (cases "ssh_exec env fullCommand")
    case (ExecThrows m still)
    then show ?thesis
      using ok catch_block_trace [of env k m
          "(log_event (Exec fullCommand) ((log_event (Connect config) st)\<lparr>connected := True\<rparr>))\<lparr>connected := still\<rparr>"]
      by (auto simp add: connect_and_probe_def Let_def log_event_def)
  next
    case (ExecResult code out err)
    note r1 = this
    show ?thesis
    proof (cases "ssh_exec env topProcessesCmd")
      case (ExecThrows m still)
      then show ?thesis
        using ok r1 catch_block_trace [of env k m
          "(log_event (Exec topProcessesCmd) (log_event (Exec fullCommand) ((log_event (Connect config) st)\<lparr>connected := True\<rparr>)))\<lparr>connected := still\<rparr>"]
        by (auto simp add: connect_and_probe_def Let_def log_event_def)
    next
      case (ExecResult pcode pout perr)
      then show ?thesis
        using ok r1 after_probes_trace [of env host k code out pout
          "log_event (Exec topProcessesCmd) (log_event (Exec fullCommand) ((log_event (Connect config) st)\<lparr>connected := True\<rparr>))"]
        by (auto simp add: connect_and_probe_def Let_def log_event_def)
    qed
  qed
qed

lemma key_auth_connected:
  "\<not> connected st \<Longrightarrow> \<not> connected (final (key_auth env host pk pass config st))"
  by (simp add: key_auth_def Let_def bad_request_def catch_block_connected
      connect_and_probe_connected split: json.splits write_outcome.splits)

lemma key_auth_key_file:
  "key_file (key_auth env host pk pass config st) = Some p \<Longrightarrow> p = new_key_path env"
  by (auto simp add: key_auth_def Let_def bad_request_def catch_block_key_file
      connect_and_probe_key_file split: json.splits write_outcome.splits if_splits)

lemma key_auth_removes:
  "key_file (key_auth env host pk pass config st) = Some p
   \<Longrightarrow> unlink_file_sync env p = UnlinkOk
   \<Longrightarrow> files (final (key_auth env host pk pass config st)) p = None"
  by (auto simp add: key_auth_def Let_def bad_request_def catch_block_key_file
      connect_and_probe_key_file catch_block_removes connect_and_probe_removes
      new_key_path_nonempty split: json.splits write_outcome.splits if_splits)

lemma key_auth_attempts:
  "key_file (key_auth env host pk pass config st) = Some p
   \<Longrightarrow> Unlink p \<in> set (trace (final (key_auth env host pk pass config st)))"
  by (auto simp add: key_auth_def Let_def bad_request_def catch_block_key_file
      connect_and_probe_key_file catch_block_attempts connect_and_probe_attempts
      new_key_path_nonempty split: json.splits write_outcome.splits if_splits)

lemma key_auth_written:
  assumes "WriteFile p c \<in> set (trace (final (key_auth env host pk pass config st)))"
    and "WriteFile p c \<notin> set (trace st)"
  shows "key_file (key_auth env host pk pass config st) = Some p"
proof (cases pk)
  case (JStr k)
  show ?thesis
  proof (cases "includes_str (processedKey k) (S ''PuTTY-User-Key-File'')")
    case True
    with assms JStr show ?thesis
      by (simp add: key_auth_def bad_request_def)
  next
    case False
    note noppk = this
    let ?st2 = "log_event (WriteFile (new_key_path env) (processedKey k))
                  (log_event (Mkdir (tempDir env)) st)"
    show ?thesis
    proof (cases "write_file_sync env (new_key_path env) (processedKey k)")
      case WriteOk
      then have kf: "key_file (key_auth env host pk pass config st) = Some (new_key_path env)"
        using JStr noppk by (simp add: key_auth_def Let_def connect_and_probe_key_file)
      from WriteOk JStr noppk assms(1)
      have "WriteFile p c \<in> set (trace (final (connect_and_probe env host (Some (new_key_path env))
              (key_config env pass config)
              (?st2\<lparr>files := (files ?st2)(new_key_path env \<mapsto> processedKey k)\<rparr>))))"
        by (simp add: key_auth_def Let_def)
      then have "WriteFile p c \<in> set (trace ?st2)"
        using connect_and_probe_trace by fastforce
      with assms(2) have "p = new_key_path env"
        by (auto simp add: log_event_def)
      with kf show ?thesis by simp
    next
      case (WriteThrows m left)
      then have kf: "key_file (key_auth env host pk pass config st) = Some (new_key_path env)"
        using JStr noppk by (simp add: key_auth_def Let_def catch_block_key_file)
      from WriteThrows JStr noppk assms(1)
      have "WriteFile p c \<in> set (trace (final (catch_block env (Some (new_key_path env)) m
              (case left of None \<Rightarrow> ?st2
               | Some content \<Rightarrow> ?st2\<lparr>files := (files ?st2)(new_key_path env \<mapsto> content)\<rparr>))))"
        by (simp add: key_auth_def Let_def)
      then have "WriteFile p c \<in> set (trace ?st2)"
        using catch_block_trace by (cases left) fastforce+
      with assms(2) have "p = new_key_path env"
        by (auto simp add: log_event_def)
      with kf show ?thesis by simp
    qed
  qed
qed (use assms catch_block_trace in \<open>fastforce simp add: key_auth_def\<close>)+

lemma cleanup_trace_mono: "set (trace st) \<subseteq> set (trace (cleanup_key_file env k st))"
  by (auto simp add: cleanup_key_file_def unlink_sync_def log_event_def Let_def
      split: option.splits unlink_outcome.splits)

lemma catch_block_trace_mono: "set (trace st) \<subseteq> set (trace (final (catch_block env k m st)))"
  using cleanup_trace_mono [of st env k] cleanup_trace_mono [of "dispose st" env k]
  by (auto simp add: catch_block_def Let_def dispose_def log_event_def)

lemma after_probes_trace_mono:
  "set (trace st) \<subseteq> set (trace (final (after_probes env host k code out pout st)))"
  using cleanup_trace_mono [of "dispose st" env k]
    catch_block_trace_mono [of "cleanup_key_file env k (dispose st)" env k "Some probe_failed_text"]
  by (auto simp add: after_probes_def Let_def dispose_def log_event_def)

lemma connect_and_probe_trace_mono:
  "set (trace st) \<subseteq> set (trace (final (connect_and_probe env host k config st)))"
proof (cases "ssh_connect env config")
  case (ConnectThrows m still)
  then show ?thesis
    using catch_block_trace_mono [of "(log_event (Connect config) st)\<lparr>connected := still\<rparr>" env k m]
    by (auto simp add: connect_and_probe_def Let_def log_event_def)
next
  case ConnectOk
  note ok = this
  show ?thesis
  proof (cases "ssh_exec env fullCommand")
    case (ExecThrows m still)
    then show ?thesis
      using ok catch_block_trace_mono [of
          "(log_event (Exec fullCommand) ((log_event (Connect config) st)\<lparr>connected := True\<rparr>))\<lparr>connected := still\<rparr>" env k m]
      by (auto simp add: connect_and_probe_def Let_def log_event_def)
  next
    case (ExecResult code out err)
    note r1 = this
    show ?thesis
    proof (cases "ssh_exec env topProcessesCmd")
      case (ExecThrows m still)
      then show ?thesis
        using ok r1 catch_block_trace_mono [of
          "(log_event (Exec topProcessesCmd) (log_event (Exec fullCommand) ((log_event (Connect config) st)\<lparr>connected := True\<rparr>)))\<lparr>connected := still\<rparr>" env k m]
        by (auto simp add: connect_and_probe_def Let_def log_event_def)
    next
      case (ExecResult pcode pout perr)
      then show ?thesis
        using ok r1 after_probes_trace_mono [of
          "log_event (Exec topProcessesCmd) (log_event (Exec fullCommand) ((log_event (Connect config) st)\<lparr>connected := True\<rparr>))" env host k code out pout]
        by (auto simp add: connect_and_probe_def Let_def log_event_def)
    qed
  qed
qed

lemma POST_disconnects: "\<not> connected (final (POST env disk0 request_json))"
  by (simp add: POST_def Let_def initial_state_def bad_request_def catch_block_connected
      connect_and_probe_connected key_auth_connected split: option.splits)

lemma POST_key_file_removed:
  assumes "key_file (POST env disk0 request_json) = Some p"
    and "unlink_file_sync env p = UnlinkOk"
  shows "files (final (POST env disk0 request_json)) p = None"
  using assms
  by (auto simp add: POST_def Let_def bad_request_def catch_block_key_file
      connect_and_probe_key_file key_auth_removes split: option.splits if_splits)

lemma POST_unlink_attempted:
  assumes "key_file (POST env disk0 request_json) = Some p"
  shows "Unlink p \<in> set (trace (final (POST env disk0 request_json)))"
  using assms
  by (auto simp add: POST_def Let_def bad_request_def catch_block_key_file
      connect_and_probe_key_file key_auth_attempts split: option.splits if_splits)

lemma POST_written_is_key_file:
  assumes "WriteFile p c \<in> set (trace (final (POST env disk0 request_json)))"
  shows "key_file (POST env disk0 request_json) = Some p"
proof -
  let ?st = "initial_state disk0"
  have st: "trace ?st = []"
    by (simp add: initial_state_def)
  have no_cb: "WriteFile p c \<notin> set (trace (final (catch_block env None m ?st)))" for m
    using catch_block_trace [of env None m ?st] st by auto
  have no_cp: "WriteFile p c \<notin> set (trace (final (connect_and_probe env h None cfg ?st)))"
    for h cfg
    using connect_and_probe_trace [of env h None cfg ?st] st by auto
  have ka: "WriteFile p c \<in> set (trace (final (key_auth env h pk pass cfg ?st)))
      \<Longrightarrow> key_file (key_auth env h pk pass cfg ?st) = Some p" for h pk pass cfg
    by (rule key_auth_written) (simp_all add: st)
  show ?thesis
    using assms no_cb no_cp ka st
    by (auto simp add: POST_def Let_def bad_request_def split: option.splits if_splits)
qed

subsection \<open>The branches of the handler\<close>

lemma includes_nonempty: "includes_str s sub \<Longrightarrow> sub \<noteq> [] \<Longrightarrow> s \<noteq> []"
  by (cases s) auto

lemma replace_all_Nil: "replace_all pat rep [] = []"
  by simp

lemma processedKey_Nil: "processedKey [] = []"
  by (simp add: processedKey_def trim_def)

lemma POST_missing_field:
  assumes "body \<noteq> JNull"
    and "\<not> truthy (get_property body (S ''host'')) \<or> \<not> truthy (get_property body (S ''username''))"
  shows "POST env disk0 (Some body) = bad_request missing_fields_text None (initial_state disk0)"
  using assms by (simp add: POST_def Let_def)

lemma POST_missing_credential:
  assumes "body \<noteq> JNull"
    and "truthy (get_property body (S ''host''))"
    and "truthy (get_property body (S ''username''))"
    and "\<not> truthy (get_property body (S ''privateKey''))"
    and "\<not> truthy (get_property body (S ''password''))"
  shows "POST env disk0 (Some body)
         = bad_request missing_credential_text None (initial_state disk0)"
  using assms by (simp add: POST_def Let_def)

lemma POST_password_branch:
  assumes "body \<noteq> JNull"
    and "truthy (get_property body (S ''host''))"
    and "truthy (get_property body (S ''username''))"
    and "\<not> truthy (get_property body (S ''privateKey''))"
    and "truthy (get_property body (S ''password''))"
  shows "POST env disk0 (Some body)
         = connect_and_probe env (the (get_property body (S ''host''))) None
             ((connectionConfig (get_property body (S ''host'')) (get_property body (S ''port''))
                 (get_property body (S ''username'')))
              \<lparr>cfg_password := get_property body (S ''password'')\<rparr>)
             (initial_state disk0)"
  using assms by (simp add: POST_def Let_def)

lemma POST_key_branch:
  assumes "body \<noteq> JNull"
    and "truthy (get_property body (S ''host''))"
    and "truthy (get_property body (S ''username''))"
    and "truthy (get_property body (S ''privateKey''))"
  shows "POST env disk0 (Some body)
         = key_auth env (the (get_property body (S ''host'')))
             (the (get_property body (S ''privateKey''))) (get_property body (S ''passphrase''))
             (connectionConfig (get_property body (S ''host'')) (get_property body (S ''port''))
                 (get_property body (S ''username'')))
             (initial_state disk0)"
  using assms by (simp add: POST_def Let_def)

lemma key_auth_ppk:
  assumes "includes_str (processedKey k) (S ''PuTTY-User-Key-File'')"
  shows "key_auth env host (JStr k) pass config st = bad_request ppk_detected_text None st"
  using assms by (simp add: key_auth_def)

lemma key_auth_written_ok:
  assumes "\<not> includes_str (processedKey k) (S ''PuTTY-User-Key-File'')"
    and "write_file_sync env (new_key_path env) (processedKey k) = WriteOk"
  shows "key_auth env host (JStr k) pass config st
         = connect_and_probe env host (Some (new_key_path env))
             (key_config env pass config)
             (st\<lparr>trace := trace st @ [Mkdir (tempDir env),
                                      WriteFile (new_key_path env) (processedKey k)],
                 files := (files st)(new_key_path env \<mapsto> processedKey k)\<rparr>)"
  using assms by (simp add: key_auth_def Let_def log_event_def)

lemma after_probes_zero:
  "response (after_probes env host k (Some 0) stdout pout st) = Snapshot (systemData host stdout pout)"
  by (simp add: after_probes_def Let_def)

lemma connect_and_probe_snapshot:
  assumes "ssh_connect env config = ConnectOk"
    and "ssh_exec env fullCommand = ExecResult (Some 0) out err"
    and "ssh_exec env topProcessesCmd = ExecResult pcode pout perr"
  shows "response (connect_and_probe env host k config st) = Snapshot (systemData host out pout)"
  using assms by (simp add: connect_and_probe_def Let_def after_probes_zero)

subsection \<open>Evaluation of the examples\<close>

lemma fullCommand_not_top: "fullCommand \<noteq> topProcessesCmd"
  by (simp add: fullCommand_def commands_def topProcessesCmd_def)

lemma env_with_simps:
  "tmpdir (env_with w c scalar procs) = S ''/tmp''"
  "date_now (env_with w c scalar procs) = S ''1700000000000''"
  "random_suffix (env_with w c scalar procs) = S ''k3x9q''"
  "write_file_sync (env_with w c scalar procs) path content = w"
  "ssh_connect (env_with w c scalar procs) config = c"
  "ssh_exec (env_with w c scalar procs) fullCommand = scalar"
  "ssh_exec (env_with w c scalar procs) topProcessesCmd = procs"
  "unlink_file_sync (env_with w c scalar procs) path = UnlinkOk"
  by (simp_all add: env_with_def fullCommand_not_top)

lemma unlink_throws_simps:
  "tmpdir (unlink_throws env) = tmpdir env"
  "date_now (unlink_throws env) = date_now env"
  "random_suffix (unlink_throws env) = random_suffix env"
  "write_file_sync (unlink_throws env) = write_file_sync env"
  "ssh_connect (unlink_throws env) = ssh_connect env"
  "ssh_exec (unlink_throws env) = ssh_exec env"
  "unlink_file_sync (unlink_throws env) path
     = UnlinkThrows (Some (S ''EPERM: operation not permitted''))"
  by (simp_all add: unlink_throws_def)

lemma new_key_path_unlink_throws: "new_key_path (unlink_throws env) = new_key_path env"
  by (simp add: new_key_path_def tempDir_def unlink_throws_simps)

lemma path_join_examples:
  "path_join (S ''/tmp'') (S ''ssh-keys'') = S ''/tmp/ssh-keys''"
  "path_join (S ''/tmp/ssh-keys'') (S ''key-1700000000000-k3x9q'')
     = S ''/tmp/ssh-keys/key-1700000000000-k3x9q''"
  "path_join (S ''/tmp/'') (S ''ssh-keys'') = S ''/tmp/ssh-keys''"
  "path_join (S ''/var//run/./x/'') (S ''../ssh-keys/'') = S ''/var/run/ssh-keys/''"
  "path_join (S ''a'') (S ''../../b'') = S ''../b''"
  "path_join (S ''/'') (S ''..'') = S ''/''"
  "path_join (S ''a/'') (S ''../'') = S ''./''"
  "path_join [] [] = S ''.''"
  by code_simp+

lemma new_key_path_example:
  "new_key_path (env_with w c scalar procs) = S ''/tmp/ssh-keys/key-1700000000000-k3x9q''"
proof -
  have "tempDir (env_with w c scalar procs) = S ''/tmp/ssh-keys''"
    unfolding tempDir_def env_with_simps by (rule path_join_examples)
  moreover have "S ''key-'' @ S ''1700000000000'' @ S ''-'' @ S ''k3x9q''
      = S ''key-1700000000000-k3x9q''"
    by simp
  ultimately show ?thesis
    unfolding new_key_path_def env_with_simps by (simp only: path_join_examples)
qed

lemma processedKey_key_text: "processedKey key_text = S ''BEGIN'' @ [10] @ S ''AAAA''"
  by code_simp

lemma key_text_not_ppk: "\<not> includes_str (processedKey key_text) (S ''PuTTY-User-Key-File'')"
  by code_simp

lemma processedKey_ppk_text: "includes_str (processedKey ppk_text) (S ''PuTTY-User-Key-File'')"
  by code_simp

lemma key_text_nonempty: "key_text \<noteq> []"
  by (simp add: key_text_def)

section \<open>The claims\<close>

subsection \<open>C1: the key file and the session are released on every path\<close>

text \<open>
  Claim C1, as stated: on every exit path, any transient key file created for the request has
  been deleted from disk and the SSH session is closed before the handler returns. The error
  of \<open>unlinkSync\<close> is dropped by the handler, so the file stays when the call throws.

  On a platform where the write, the connect and both commands succeed and \<open>unlinkSync\<close>
  throws, a request with a key is answered with the snapshot, the removal of the key file has
  been asked for, the session is closed, and the key is still on disk.
\<close>

theorem failed_unlink_leaves_key_file:
  "response (POST (unlink_throws (env_with WriteOk ConnectOk (ExecResult (Some 0) sample_stdout [])
                                    (ExecResult (Some 0) sample_processes [])))
               Map.empty (Some key_request))
     = Snapshot (systemData (JStr (S ''10.0.0.5'')) sample_stdout sample_processes)
   \<and> key_file (POST (unlink_throws (env_with WriteOk ConnectOk
                                       (ExecResult (Some 0) sample_stdout [])
                                       (ExecResult (Some 0) sample_processes [])))
                  Map.empty (Some key_request))
     = Some (S ''/tmp/ssh-keys/key-1700000000000-k3x9q'')
   \<and> Unlink (S ''/tmp/ssh-keys/key-1700000000000-k3x9q'')
       \<in> set (trace (final (POST (unlink_throws (env_with WriteOk ConnectOk
                                                    (ExecResult (Some 0) sample_stdout [])
                                                    (ExecResult (Some 0) sample_processes [])))
                              Map.empty (Some key_request))))
   \<and> files (final (POST (unlink_throws (env_with WriteOk ConnectOk
                                           (ExecResult (Some 0) sample_stdout [])
                                           (ExecResult (Some 0) sample_processes [])))
                     Map.empty (Some key_request)))
       (S ''/tmp/ssh-keys/key-1700000000000-k3x9q'') = Some (S ''BEGIN'' @ [10] @ S ''AAAA'')
   \<and> \<not> connected (final (POST (unlink_throws (env_with WriteOk ConnectOk
                                                  (ExecResult (Some 0) sample_stdout [])
                                                  (ExecResult (Some 0) sample_processes [])))
                            Map.empty (Some key_request)))"
proof -
  let ?E0 = "env_with WriteOk ConnectOk (ExecResult (Some 0) sample_stdout [])
               (ExecResult (Some 0) sample_processes [])"
  let ?E = "unlink_throws ?E0"
  let ?out = "POST ?E Map.empty (Some key_request)"
  let ?kp = "S ''/tmp/ssh-keys/key-1700000000000-k3x9q''"
  let ?host = "JStr (S ''10.0.0.5'')"
  let ?cfg = "connectionConfig (Some ?host) None (Some (JStr (S ''root'')))"
  let ?st = "(initial_state Map.empty)
               \<lparr>trace := trace (initial_state Map.empty)
                    @ [Mkdir (tempDir ?E), WriteFile (new_key_path ?E) (processedKey key_text)],
                files := (files (initial_state Map.empty))
                    (new_key_path ?E \<mapsto> processedKey key_text)\<rparr>"
  have path: "new_key_path ?E = ?kp"
    by (simp only: new_key_path_unlink_throws new_key_path_example)
  have branch: "?out = key_auth ?E ?host (JStr key_text) None ?cfg (initial_state Map.empty)"
    using POST_key_branch [of key_request ?E Map.empty]
    by (simp add: key_request_def request_with_def key_text_nonempty)
  have written: "key_auth ?E ?host (JStr key_text) None ?cfg (initial_state Map.empty)
        = connect_and_probe ?E ?host (Some (new_key_path ?E)) (key_config ?E None ?cfg) ?st"
    using key_auth_written_ok [of key_text ?E ?host None] key_text_not_ppk
    by (simp add: env_with_simps unlink_throws_simps)
  have out: "?out = connect_and_probe ?E ?host (Some (new_key_path ?E)) (key_config ?E None ?cfg) ?st"
    by (simp only: branch written)
  have resp: "response ?out = Snapshot (systemData ?host sample_stdout sample_processes)"
    unfolding out
    by (rule connect_and_probe_snapshot) (simp_all add: unlink_throws_simps env_with_simps)
  have kf: "key_file ?out = Some ?kp"
    unfolding out by (simp only: connect_and_probe_key_file path)
  have "Unlink (new_key_path ?E) \<in> set (trace (final ?out))"
    unfolding out by (rule connect_and_probe_attempts) (rule new_key_path_nonempty)
  then have att: "Unlink ?kp \<in> set (trace (final ?out))"
    by (simp only: path)
  have "files (final ?out) (new_key_path ?E) = files ?st (new_key_path ?E)"
    unfolding out by (rule connect_and_probe_keeps) (rule unlink_throws_simps)
  then have "files (final ?out) (new_key_path ?E) = Some (processedKey key_text)"
    by simp
  then have kept: "files (final ?out) ?kp = Some (S ''BEGIN'' @ [10] @ S ''AAAA'')"
    by (simp only: path processedKey_key_text)
  have closed: "\<not> connected (final ?out)"
    by (rule POST_disconnects)
  show ?thesis
    by (intro conjI resp kf att kept closed)
qed

text \<open>
  Claim C1, amended: on every exit path the SSH session is closed before the handler returns,
  and the removal of any transient key file created for the request has been asked for; the
  file is gone from disk whenever that \<open>unlinkSync\<close> does not throw.

  For every platform, every disk and every request: in the state the handler returns in, the
  session reports itself not connected; \<open>unlinkSync\<close> has been called on the path \<open>keyFilePath\<close>
  holds, if any; that path names no file when the platform removes it; and every file the
  handler wrote is the one at \<open>keyFilePath\<close>.
\<close>

theorem POST_closes_session_and_unlinks_key_file:
  "\<not> connected (final (POST env disk0 request_json)) \<and>
   (\<forall>p. key_file (POST env disk0 request_json) = Some p
      \<longrightarrow> Unlink p \<in> set (trace (final (POST env disk0 request_json)))) \<and>
   (\<forall>p. key_file (POST env disk0 request_json) = Some p \<and> unlink_file_sync env p = UnlinkOk
      \<longrightarrow> files (final (POST env disk0 request_json)) p = None) \<and>
   (\<forall>p c. WriteFile p c \<in> set (trace (final (POST env disk0 request_json)))
      \<longrightarrow> key_file (POST env disk0 request_json) = Some p)"
  using POST_disconnects POST_unlink_attempted POST_key_file_removed POST_written_is_key_file
  by blast

theorem POST_closes_session_and_unlinks_key_file_witness:
  "key_file (POST (env_with WriteOk ConnectOk (ExecResult (Some 0) sample_stdout [])
                     (ExecResult (Some 0) sample_processes []))
               Map.empty (Some key_request))
     = Some (S ''/tmp/ssh-keys/key-1700000000000-k3x9q'')
   \<and> unlink_file_sync (env_with WriteOk ConnectOk (ExecResult (Some 0) sample_stdout [])
                          (ExecResult (Some 0) sample_processes []))
       (S ''/tmp/ssh-keys/key-1700000000000-k3x9q'') = UnlinkOk
   \<and> WriteFile (S ''/tmp/ssh-keys/key-1700000000000-k3x9q'') (S ''BEGIN'' @ [10] @ S ''AAAA'')
       \<in> set (trace (final (POST (env_with WriteOk ConnectOk (ExecResult (Some 0) sample_stdout [])
                                    (ExecResult (Some 0) sample_processes []))
                              Map.empty (Some key_request))))
   \<and> Unlink (S ''/tmp/ssh-keys/key-1700000000000-k3x9q'')
       \<in> set (trace (final (POST (env_with WriteOk ConnectOk (ExecResult (Some 0) sample_stdout [])
                                    (ExecResult (Some 0) sample_processes []))
                              Map.empty (Some key_request))))
   \<and> files (final (POST (env_with WriteOk ConnectOk (ExecResult (Some 0) sample_stdout [])
                           (ExecResult (Some 0) sample_processes []))
                     Map.empty (Some key_request)))
       (S ''/tmp/ssh-keys/key-1700000000000-k3x9q'') = None
   \<and> \<not> connected (final (POST (env_with WriteOk ConnectOk (ExecResult (Some 0) sample_stdout [])
                                  (ExecResult (Some 0) sample_processes []))
                            Map.empty (Some key_request)))"
proof -
  let ?E = "env_with WriteOk ConnectOk (ExecResult (Some 0) sample_stdout [])
              (ExecResult (Some 0) sample_processes [])"
  let ?out = "POST ?E Map.empty (Some key_request)"
  let ?kp = "S ''/tmp/ssh-keys/key-1700000000000-k3x9q''"
  have path: "new_key_path ?E = ?kp"
    by (rule new_key_path_example)
  have branch: "?out = key_auth ?E (JStr (S ''10.0.0.5'')) (JStr key_text) None
                  (connectionConfig (Some (JStr (S ''10.0.0.5''))) None (Some (JStr (S ''root''))))
                  (initial_state Map.empty)"
    using POST_key_branch [of key_request ?E Map.empty]
    by (simp add: key_request_def request_with_def key_text_nonempty)
  have written: "key_auth ?E (JStr (S ''10.0.0.5'')) (JStr key_text) None
                  (connectionConfig (Some (JStr (S ''10.0.0.5''))) None (Some (JStr (S ''root''))))
                  (initial_state Map.empty)
        = connect_and_probe ?E (JStr (S ''10.0.0.5'')) (Some (new_key_path ?E))
            (key_config ?E None
               (connectionConfig (Some (JStr (S ''10.0.0.5''))) None (Some (JStr (S ''root'')))))
            ((initial_state Map.empty)
               \<lparr>trace := trace (initial_state Map.empty)
                    @ [Mkdir (tempDir ?E), WriteFile (new_key_path ?E) (processedKey key_text)],
                files := (files (initial_state Map.empty))
                    (new_key_path ?E \<mapsto> processedKey key_text)\<rparr>)"
    using key_auth_written_ok [of key_text ?E "JStr (S ''10.0.0.5'')" None] key_text_not_ppk
    by (simp add: env_with_simps)
  have kf: "key_file ?out = Some ?kp"
    unfolding branch written by (simp only: connect_and_probe_key_file path)
  have ok: "unlink_file_sync ?E ?kp = UnlinkOk"
    by (rule env_with_simps)
  have "WriteFile (new_key_path ?E) (processedKey key_text) \<in> set (trace (final ?out))"
    unfolding branch written
    by (rule subsetD [OF connect_and_probe_trace_mono]) simp
  then have wr: "WriteFile ?kp (S ''BEGIN'' @ [10] @ S ''AAAA'') \<in> set (trace (final ?out))"
    by (simp only: path processedKey_key_text)
  from POST_closes_session_and_unlinks_key_file [of ?E Map.empty "Some key_request"] kf wr ok
  show ?thesis by blast
qed

subsection \<open>C2: a failed scalar probe\<close>

lemma errorMessage_probe_failed: "errorMessage (Some probe_failed_text) = probe_failed_text"
  by code_simp

lemma after_probes_nonzero:
  assumes "code \<noteq> Some 0"
  shows "response (after_probes env host k code out pout st) = ErrorResponse probe_failed_text 500"
  using assms
  by (simp add: after_probes_def Let_def catch_block_response errorMessage_probe_failed)

lemma connect_and_probe_nonzero:
  assumes "ssh_exec env fullCommand = ExecResult code out err" and "code \<noteq> Some 0"
  shows "\<exists>text. response (connect_and_probe env host k config st) = ErrorResponse text 500"
  using assms
  by (simp add: connect_and_probe_def Let_def catch_block_response after_probes_nonzero
      split: connect_outcome.splits exec_outcome.splits)

lemma connect_and_probe_nonzero_text:
  assumes "ssh_connect env config = ConnectOk"
    and "ssh_exec env fullCommand = ExecResult code out err" and "code \<noteq> Some 0"
    and "ssh_exec env topProcessesCmd = ExecResult pcode pout perr"
  shows "response (connect_and_probe env host k config st)
         = ErrorResponse probe_failed_text 500"
  using assms
  by (simp add: connect_and_probe_def Let_def after_probes_nonzero)

lemma connect_and_probe_exec_connected:
  assumes "Exec c \<in> set (trace (final (connect_and_probe env host k config st)))"
    and "Exec c \<notin> set (trace st)"
  shows "ssh_connect env config = ConnectOk"
proof (cases "ssh_connect env config")
  case (ConnectThrows m still)
  then have "set (trace (final (connect_and_probe env host k config st)))
      \<subseteq> set (trace st) \<union> {Connect config} \<union> {Dispose} \<union> range Unlink"
    using catch_block_trace [of env k m "(log_event (Connect config) st)\<lparr>connected := still\<rparr>"]
    by (auto simp add: connect_and_probe_def Let_def log_event_def)
  with assms show ?thesis by auto
qed simp

lemma connect_and_probe_runs_scalar:
  assumes "ssh_connect env config = ConnectOk"
  shows "Exec fullCommand \<in> set (trace (final (connect_and_probe env host k config st)))"
proof -
  let ?st2 = "log_event (Exec fullCommand) ((log_event (Connect config) st)\<lparr>connected := True\<rparr>)"
  have in2: "Exec fullCommand \<in> set (trace ?st2)"
    by (simp add: log_event_def)
  show ?thesis
  proof (cases "ssh_exec env fullCommand")
    case (ExecThrows m still)
    then show ?thesis
      using assms in2 catch_block_trace_mono [of "?st2\<lparr>connected := still\<rparr>" env k m]
      by (auto simp add: connect_and_probe_def Let_def)
  next
    case (ExecResult code out err)
    note r1 = this
    show ?thesis
    proof (cases "ssh_exec env topProcessesCmd")
      case (ExecThrows m still)
      then show ?thesis
        using assms r1 in2
          catch_block_trace_mono [of "(log_event (Exec topProcessesCmd) ?st2)\<lparr>connected := still\<rparr>" env k m]
        by (auto simp add: connect_and_probe_def Let_def log_event_def)
    next
      case (ExecResult pcode pout perr)
      then show ?thesis
        using assms r1 in2
          after_probes_trace_mono [of "log_event (Exec topProcessesCmd) ?st2" env host k code out pout]
        by (auto simp add: connect_and_probe_def Let_def log_event_def)
    qed
  qed
qed

text \<open>An execution that ran a command went through \<open>connect_and_probe\<close>, and the connect succeeded.\<close>

lemma key_auth_exec:
  assumes "Exec c \<in> set (trace (final (key_auth env host pk pass config st)))"
    and "Exec c \<notin> set (trace st)"
  shows "\<exists>k config' st'. key_auth env host pk pass config st
            = connect_and_probe env host k config' st'
          \<and> Exec c \<notin> set (trace st')"
proof (cases pk)
  case (JStr key)
  show ?thesis
  proof (cases "includes_str (processedKey key) (S ''PuTTY-User-Key-File'')")
    case True
    with assms JStr show ?thesis
      by (simp add: key_auth_def bad_request_def)
  next
    case False
    note noppk = this
    let ?st2 = "log_event (WriteFile (new_key_path env) (processedKey key))
                  (log_event (Mkdir (tempDir env)) st)"
    have st2: "Exec c \<notin> set (trace ?st2)"
      using assms(2) by (simp add: log_event_def)
    show ?thesis
    proof (cases "write_file_sync env (new_key_path env) (processedKey key)")
      case WriteOk
      then have "key_auth env host pk pass config st
          = connect_and_probe env host (Some (new_key_path env))
              (key_config env pass config)
              (?st2\<lparr>files := (files ?st2)(new_key_path env \<mapsto> processedKey key)\<rparr>)"
        using JStr noppk by (simp add: key_auth_def Let_def)
      moreover have "Exec c \<notin> set (trace (?st2\<lparr>files := (files ?st2)(new_key_path env \<mapsto> processedKey key)\<rparr>))"
        using st2 by simp
      ultimately show ?thesis by blast
    next
      case (WriteThrows m left)
      then have "set (trace (final (key_auth env host pk pass config st)))
           \<subseteq> set (trace ?st2) \<union> {Dispose} \<union> range Unlink"
        using JStr noppk
          catch_block_trace [of env "Some (new_key_path env)" m ?st2]
          catch_block_trace [of env "Some (new_key_path env)" m
            "?st2\<lparr>files := (files ?st2)(new_key_path env \<mapsto> the left)\<rparr>"]
        by (cases left) (auto simp add: key_auth_def Let_def)
      with assms(1) st2 show ?thesis by auto
    qed
  qed
qed (use assms catch_block_trace in \<open>fastforce simp add: key_auth_def\<close>)+

lemma POST_exec:
  assumes "Exec c \<in> set (trace (final (POST env disk0 request_json)))"
  shows "\<exists>host k config st. POST env disk0 request_json = connect_and_probe env host k config st
          \<and> Exec c \<notin> set (trace st)"
proof -
  let ?st = "initial_state disk0"
  have st: "trace ?st = []"
    by (simp add: initial_state_def)
  have no_cb: "Exec c \<notin> set (trace (final (catch_block env None m ?st)))" for m
    using catch_block_trace [of env None m ?st] st by auto
  have ka: "Exec c \<in> set (trace (final (key_auth env h pk pass cfg ?st)))
      \<Longrightarrow> \<exists>k config' st'. key_auth env h pk pass cfg ?st = connect_and_probe env h k config' st'
            \<and> Exec c \<notin> set (trace st')" for h pk pass cfg
    by (rule key_auth_exec) (simp_all add: st)
  have cp: "\<exists>k config' st'. connect_and_probe env h None cfg ?st = connect_and_probe env h k config' st'
            \<and> Exec c \<notin> set (trace st')" for h cfg
    using st by (intro exI [of _ None] exI [of _ cfg] exI [of _ ?st]) simp
  show ?thesis
  proof (cases request_json)
    case None
    with assms st show ?thesis
      by (simp add: POST_def bad_request_def)
  next
    case (Some body)
    show ?thesis
    proof (cases "body = JNull")
      case True
      with assms Some no_cb show ?thesis
        by (simp add: POST_def)
    next
      case False
      with assms Some st ka cp show ?thesis
        by (simp add: POST_def Let_def bad_request_def split: if_splits) blast+
    qed
  qed
qed

text \<open>
  Claim C2. For every execution in which the combined scalar probe command exits with a
  non-zero code, the handler fails with ProbeExecutionFailed (a 500 error response) and
  never returns a MetricsSnapshot, partial or otherwise.

  An execution in which the first command was run and returned an exit code other than \<open>0\<close>
  (\<open>null\<close> included) ends in an error response of status 500, never in a snapshot; when the
  second command returned as well, the text is \<open>Failed to execute system commands\<close>.
\<close>

theorem nonzero_scalar_exit_is_probe_failure:
  assumes "Exec fullCommand \<in> set (trace (final (POST env disk0 request_json)))"
    and "ssh_exec env fullCommand = ExecResult code stdout stderr"
    and "code \<noteq> Some 0"
  shows "(\<exists>text. response (POST env disk0 request_json) = ErrorResponse text 500)
       \<and> (\<forall>d. response (POST env disk0 request_json) \<noteq> Snapshot d)
       \<and> (\<forall>pcode pstdout pstderr.
             ssh_exec env topProcessesCmd = ExecResult pcode pstdout pstderr
             \<longrightarrow> response (POST env disk0 request_json) = ErrorResponse probe_failed_text 500)"
proof -
  from POST_exec [OF assms(1)] obtain host k config st
    where eq: "POST env disk0 request_json = connect_and_probe env host k config st"
      and fresh: "Exec fullCommand \<notin> set (trace st)"
    by blast
  have ok: "ssh_connect env config = ConnectOk"
    using connect_and_probe_exec_connected [of fullCommand env host k config st] assms(1) fresh eq
    by simp
  have a: "\<exists>text. response (POST env disk0 request_json) = ErrorResponse text 500"
    unfolding eq using assms(2,3) by (rule connect_and_probe_nonzero)
  then have b: "\<forall>d. response (POST env disk0 request_json) \<noteq> Snapshot d"
    by auto
  have c: "response (POST env disk0 request_json) = ErrorResponse probe_failed_text 500"
    if "ssh_exec env topProcessesCmd = ExecResult pcode pstdout pstderr"
    for pcode pstdout pstderr
    unfolding eq using ok assms(2,3) that by (rule connect_and_probe_nonzero_text)
  from a b c show ?thesis by blast
qed

theorem nonzero_scalar_exit_is_probe_failure_witness:
  "Exec fullCommand
     \<in> set (trace (final (POST (env_with WriteOk ConnectOk (ExecResult (Some 1) [] [])
                                  (ExecResult (Some 0) sample_processes []))
                            Map.empty (Some password_request))))
   \<and> ssh_exec (env_with WriteOk ConnectOk (ExecResult (Some 1) [] [])
                 (ExecResult (Some 0) sample_processes [])) fullCommand
       = ExecResult (Some 1) [] []
   \<and> Some 1 \<noteq> Some (0 :: int)
   \<and> response (POST (env_with WriteOk ConnectOk (ExecResult (Some 1) [] [])
                       (ExecResult (Some 0) sample_processes []))
                 Map.empty (Some password_request))
       = ErrorResponse probe_failed_text 500"
proof -
  let ?E = "env_with WriteOk ConnectOk (ExecResult (Some 1) [] [])
              (ExecResult (Some 0) sample_processes [])"
  let ?out = "POST ?E Map.empty (Some password_request)"
  have eq: "?out = connect_and_probe ?E (the (get_property password_request (S ''host''))) None
                ((connectionConfig (get_property password_request (S ''host''))
                    (get_property password_request (S ''port''))
                    (get_property password_request (S ''username'')))
                 \<lparr>cfg_password := get_property password_request (S ''password'')\<rparr>)
                (initial_state Map.empty)"
    by (rule POST_password_branch) (simp_all add: password_request_def request_with_def)
  have ran: "Exec fullCommand \<in> set (trace (final ?out))"
    unfolding eq by (rule connect_and_probe_runs_scalar) (simp add: env_with_simps)
  have r1: "ssh_exec ?E fullCommand = ExecResult (Some 1) [] []"
    by (simp add: env_with_simps)
  have r2: "ssh_exec ?E topProcessesCmd = ExecResult (Some 0) sample_processes []"
    by (simp add: env_with_simps)
  have nz: "Some 1 \<noteq> Some (0 :: int)"
    by simp
  from nonzero_scalar_exit_is_probe_failure [OF ran r1 nz] r2
  have "response ?out = ErrorResponse probe_failed_text 500"
    by blast
  with ran r1 nz show ?thesis by blast
qed

subsection \<open>The shape of \<open>toFixed(2)\<close>\<close>

lemma dec_digits_nonempty: "dec_digits n \<noteq> []"
  by (subst dec_digits.simps) simp




subsection \<open>C3: byte counts become gigabytes with two decimals\<close>

lemma dyadic_is_Fin: "\<exists>m' e'. dyadic m e = Fin m' e'"
proof (induction m e rule: dyadic.induct)
  case (1 m e)
  then show ?case
    by (subst dyadic.simps) auto
qed

lemma round_ratio_cases:
  "round_ratio p q = PosInf \<or> round_ratio p q = NegInf \<or> (\<exists>m e. round_ratio p q = Fin m e)"
  using dyadic_is_Fin by (auto simp add: round_ratio_def round_at_def pack_def)

lemma round_scaled_cases:
  "round_scaled p q k = PosInf \<or> round_scaled p q k = NegInf
   \<or> (\<exists>m e. round_scaled p q k = Fin m e)"
  using round_ratio_cases by (simp add: round_scaled_def)











subsection \<open>C4: fallbacks of the numeric fields\<close>

lemma num_or_NaN: "num_or NaN d = d"
  by (simp add: num_or_def)

lemma parse_undefined: "parse_int (S ''undefined'') = NaN" "parse_float (S ''undefined'') = NaN"
  by code_simp+

text \<open>
  Claim C4. For every scalar-probe stdout, any sentinel-delimited field that fails numeric
  parsing defaults to 0, except the total-memory and total-disk fields which default to 1;
  no individual field's parse failure causes the whole snapshot to fail.

  The claim fails on the second field: a core count that does not parse gives \<open>1\<close>, not \<open>0\<close>
  (\<open>parseInt(results[1]) || 1\<close>).
\<close>

theorem unparsable_core_count_is_one:
  "parse_int (to_string (nth_opt (results (S ''1.5---many'')) 1)) = NaN
   \<and> cpu_cores (cpu (systemData (JStr (S ''10.0.0.5'')) (S ''1.5---many'') [])) = num 1
   \<and> num 1 \<noteq> num 0"
proof -
  have rs: "results (S ''1.5---many'') = [S ''1.5'', S ''many'']"
    by code_simp
  have p: "parse_int (to_string (nth_opt [S ''1.5'', S ''many''] 1)) = NaN"
    by code_simp
  have a: "parse_int (to_string (nth_opt (results (S ''1.5---many'')) 1)) = NaN"
    unfolding rs by (rule p)
  have b: "cpu_cores (cpu (systemData (JStr (S ''10.0.0.5'')) (S ''1.5---many'') []))
           = cpuCores (results (S ''1.5---many''))"
    by (simp add: systemData_def Let_def)
  have c: "cpuCores (results (S ''1.5---many'')) = num 1"
    unfolding cpuCores_def a by (rule num_or_NaN)
  have d: "num 1 \<noteq> num 0"
    by (simp add: num_0 num_1)
  from a b c d show ?thesis
    by (simp only: simp_thms)
qed

text \<open>
  Claim C4, as amended: a numeric field that fails to parse (\<open>parseInt\<close> or \<open>parseFloat\<close> gives \<open>NaN\<close>)
  takes the fallback \<open>0\<close>, except the core count, total memory and total disk, whose
  fallback is \<open>1\<close>; and once the first command has returned with exit code \<open>0\<close>, the answer is
  the snapshot, whatever the fields hold.
\<close>

theorem unparsable_fields_take_their_fallback:
  "(parse_float (to_string (nth_opt rs 0)) = NaN \<longrightarrow> cpuUsage rs = num 0)
   \<and> (parse_int (to_string (nth_opt rs 1)) = NaN \<longrightarrow> cpuCores rs = num 1)
   \<and> (parse_int (to_string (nth_opt rs 3)) = NaN \<longrightarrow> memTotal rs = num 1)
   \<and> (parse_int (to_string (nth_opt rs 4)) = NaN \<longrightarrow> memUsed rs = num 0)
   \<and> (parse_int (to_string (nth_opt rs 5)) = NaN \<longrightarrow> memFree rs = num 0)
   \<and> (parse_int (to_string (nth_opt rs 6)) = NaN \<longrightarrow> diskTotal rs = num 1)
   \<and> (parse_int (to_string (nth_opt rs 7)) = NaN \<longrightarrow> diskUsed rs = num 0)
   \<and> (parse_int (to_string (nth_opt rs 8)) = NaN \<longrightarrow> diskAvailable rs = num 0)
   \<and> (parse_float (to_string (nth_opt rs 9)) = NaN \<longrightarrow> diskUsagePercent rs = num 0)
   \<and> (parse_float (to_string (nth_opt rs 14)) = NaN \<longrightarrow> uptime rs = num 0)
   \<and> (parse_int (to_string (nth_opt rs 15)) = NaN \<longrightarrow> processesAll rs = num 0)
   \<and> (parse_int (to_string (nth_opt rs 16)) = NaN \<longrightarrow> processesRunning rs = num 0)
   \<and> response (after_probes env host k (Some 0) stdout pout st)
       = Snapshot (systemData host stdout pout)"
  by (simp add: cpuUsage_def cpuCores_def memTotal_def memUsed_def memFree_def diskTotal_def
      diskUsed_def diskAvailable_def diskUsagePercent_def uptime_def processesAll_def
      processesRunning_def num_or_NaN after_probes_zero)

theorem unparsable_fields_take_their_fallback_witness:
  "parse_float (to_string (nth_opt [] 0)) = NaN \<and> cpuUsage [] = num 0
   \<and> parse_int (to_string (nth_opt [] 1)) = NaN \<and> cpuCores [] = num 1
   \<and> parse_int (to_string (nth_opt [] 3)) = NaN \<and> memTotal [] = num 1
   \<and> parse_int (to_string (nth_opt [] 4)) = NaN \<and> memUsed [] = num 0
   \<and> parse_int (to_string (nth_opt [] 5)) = NaN \<and> memFree [] = num 0
   \<and> parse_int (to_string (nth_opt [] 6)) = NaN \<and> diskTotal [] = num 1
   \<and> parse_int (to_string (nth_opt [] 7)) = NaN \<and> diskUsed [] = num 0
   \<and> parse_int (to_string (nth_opt [] 8)) = NaN \<and> diskAvailable [] = num 0
   \<and> parse_float (to_string (nth_opt [] 9)) = NaN \<and> diskUsagePercent [] = num 0
   \<and> parse_float (to_string (nth_opt [] 14)) = NaN \<and> uptime [] = num 0
   \<and> parse_int (to_string (nth_opt [] 15)) = NaN \<and> processesAll [] = num 0
   \<and> parse_int (to_string (nth_opt [] 16)) = NaN \<and> processesRunning [] = num 0"
proof -
  have u: "to_string (nth_opt ([] :: jsstring list) i) = S ''undefined''" for i
    by (simp add: nth_opt_def to_string_def)
  have pi: "parse_int (to_string (nth_opt ([] :: jsstring list) i)) = NaN" for i
    unfolding u by (rule parse_undefined)
  have pf: "parse_float (to_string (nth_opt ([] :: jsstring list) i)) = NaN" for i
    unfolding u by (rule parse_undefined)
  from unparsable_fields_take_their_fallback [of "[]"]
  show ?thesis by (simp only: pi pf simp_thms)
qed

subsection \<open>C5: lines of the process table\<close>

lemma join_single: "join sep [x] = x"
  by simp




lemma process_line_Some_iff:
  "process_line l \<noteq> None \<longleftrightarrow> 11 \<le> length (split_ws (trim l))"
  by (simp add: process_line_def Let_def)

lemma length_top_processes:
  "length (top_processes stdout)
   = min 20 (length (filter (\<lambda>l. trim l \<noteq> [] \<and> 11 \<le> length (split_ws (trim l)))
                      (split [10] stdout)))"
proof -
  have "filter (\<lambda>p. p \<noteq> None) (map process_line ls)
        = map process_line (filter (\<lambda>l. 11 \<le> length (split_ws (trim l))) ls)" for ls
    using process_line_Some_iff by (induction ls) auto
  then show ?thesis
    by (simp add: top_processes_def conj_commute min.commute)
qed

lemma sample_tokens:
  "split_ws (trim (S ''root 1'')) = [S ''root'', S ''1'']"
  "split_ws (trim sample_process_line)
   = [S ''root'', S ''1'', S ''0.0'', S ''0.1'', S ''1000'', S ''500'', S ''?'', S ''Ss'',
      S ''10:00'', S ''0:01'', S ''/sbin/init'']"
  "take 50 (join (S '' '') (drop 10 (split_ws (trim long_process_line))))
   = S ''/usr/bin/node /srv/app/server.js --port 8080 --wor''"
  "length (join (S '' '') (drop 10 (split_ws (trim long_process_line)))) = 66"
  "length (split_ws (trim long_process_line)) = 17"
  "length (filter (\<lambda>l. trim l \<noteq> [] \<and> 11 \<le> length (split_ws (trim l)))
                      (split [10] sample_processes)) = 2"
  by code_simp+


subsection \<open>C6: a PuTTY key container\<close>

lemma processedKey_nonempty: "processedKey k \<noteq> [] \<Longrightarrow> k \<noteq> []"
  using processedKey_Nil by auto

lemma get_property_not_null: "get_property body key = Some v \<Longrightarrow> body \<noteq> JNull"
  by (cases body) simp_all

lemma bad_request_simps:
  "response (bad_request text k st) = ErrorResponse text 400"
  "final (bad_request text k st) = st"
  "key_file (bad_request text k st) = k"
  by (simp_all add: bad_request_def)

lemma marker_nonempty: "S ''PuTTY-User-Key-File'' \<noteq> []"
  by simp

lemma texts_differ:
  "missing_fields_text \<noteq> ppk_detected_text"
  "missing_credential_text \<noteq> ppk_detected_text"
  "missing_fields_text \<noteq> missing_credential_text"
  by (simp_all add: missing_fields_text_def ppk_detected_text_def missing_credential_text_def)

lemma POST_ppk:
  assumes "get_property body (S ''privateKey'') = Some (JStr k)"
    and "includes_str (processedKey k) (S ''PuTTY-User-Key-File'')"
    and "truthy (get_property body (S ''host''))"
    and "truthy (get_property body (S ''username''))"
  shows "POST env disk0 (Some body) = bad_request ppk_detected_text None (initial_state disk0)"
proof -
  have body: "body \<noteq> JNull"
    using assms(1) by (rule get_property_not_null)
  have "processedKey k \<noteq> []"
    using assms(2) marker_nonempty by (rule includes_nonempty)
  then have "k \<noteq> []"
    by (rule processedKey_nonempty)
  then have key: "truthy (get_property body (S ''privateKey''))"
    using assms(1) by simp
  have "POST env disk0 (Some body)
      = key_auth env (the (get_property body (S ''host''))) (JStr k)
          (get_property body (S ''passphrase''))
          (connectionConfig (get_property body (S ''host'')) (get_property body (S ''port''))
             (get_property body (S ''username'')))
          (initial_state disk0)"
    using POST_key_branch [OF body assms(3,4) key, of env disk0] assms(1) by simp
  then show ?thesis
    using assms(2) by (simp only: key_auth_ppk)
qed

text \<open>
  Claim C6. For every request supplying private-key material that, after line-ending
  normalization, contains the PuTTY container marker, the handler fails with the
  UnsupportedKeyFormat conversion-instructions error (status 400), regardless of what else
  the key contains, and the transport connect is never attempted for that request.

  The claim fails for a request that has such a key and no host: the check of host and
  username comes first, and the answer is the MissingField text.
\<close>

theorem ppk_key_without_host_is_missing_field:
  "get_property ppk_without_host_request (S ''privateKey'') = Some (JStr ppk_text)
   \<and> includes_str (processedKey ppk_text) (S ''PuTTY-User-Key-File'')
   \<and> response (POST (env_with WriteOk ConnectOk (ExecResult (Some 0) sample_stdout [])
                       (ExecResult (Some 0) sample_processes []))
                 Map.empty (Some ppk_without_host_request))
       = ErrorResponse missing_fields_text 400
   \<and> missing_fields_text \<noteq> ppk_detected_text"
proof -
  let ?E = "env_with WriteOk ConnectOk (ExecResult (Some 0) sample_stdout [])
              (ExecResult (Some 0) sample_processes [])"
  have a: "get_property ppk_without_host_request (S ''privateKey'') = Some (JStr ppk_text)"
    by (simp add: ppk_without_host_request_def request_with_def)
  have "POST ?E Map.empty (Some ppk_without_host_request)
        = bad_request missing_fields_text None (initial_state Map.empty)"
    by (rule POST_missing_field) (simp_all add: ppk_without_host_request_def request_with_def)
  then have b: "response (POST ?E Map.empty (Some ppk_without_host_request))
        = ErrorResponse missing_fields_text 400"
    by (simp only: bad_request_simps)
  show ?thesis
    by (intro conjI a processedKey_ppk_text b texts_differ)
qed

text \<open>
  Claim C6, as amended: for every request with host and username present that supplies private-key
  material which, after line-ending normalization, contains the PuTTY container marker, the
  handler fails with the conversion-instructions error (status 400), regardless of what else
  the key contains; and for every request with such a key, with or without host and
  username, the answer has status 400 and nothing is done to the world: no connect is
  attempted, no file is written, no command is run.
\<close>

theorem ppk_key_is_rejected_before_any_effect:
  assumes "get_property body (S ''privateKey'') = Some (JStr k)"
    and "includes_str (processedKey k) (S ''PuTTY-User-Key-File'')"
  shows "(truthy (get_property body (S ''host'')) \<and> truthy (get_property body (S ''username''))
          \<longrightarrow> response (POST env disk0 (Some body)) = ErrorResponse ppk_detected_text 400)
       \<and> (\<exists>text. response (POST env disk0 (Some body)) = ErrorResponse text 400)
       \<and> trace (final (POST env disk0 (Some body))) = []
       \<and> files (final (POST env disk0 (Some body))) = disk0
       \<and> key_file (POST env disk0 (Some body)) = None"
proof -
  have body: "body \<noteq> JNull"
    using assms(1) by (rule get_property_not_null)
  show ?thesis
  proof (cases "truthy (get_property body (S ''host'')) \<and> truthy (get_property body (S ''username''))")
    case True
    then have "POST env disk0 (Some body)
        = bad_request ppk_detected_text None (initial_state disk0)"
      using POST_ppk [OF assms, of env disk0] by blast
    then show ?thesis
      by (simp add: bad_request_simps initial_state_def)
  next
    case False
    then have "POST env disk0 (Some body)
        = bad_request missing_fields_text None (initial_state disk0)"
      using POST_missing_field [OF body, of env disk0] by blast
    with False show ?thesis
      by (auto simp add: bad_request_simps initial_state_def)
  qed
qed

theorem ppk_key_is_rejected_before_any_effect_witness:
  "get_property ppk_request (S ''privateKey'') = Some (JStr ppk_text)
   \<and> includes_str (processedKey ppk_text) (S ''PuTTY-User-Key-File'')
   \<and> truthy (get_property ppk_request (S ''host''))
   \<and> truthy (get_property ppk_request (S ''username''))
   \<and> response (POST (env_with WriteOk ConnectOk (ExecResult (Some 0) sample_stdout [])
                       (ExecResult (Some 0) sample_processes []))
                 Map.empty (Some ppk_request))
       = ErrorResponse ppk_detected_text 400
   \<and> trace (final (POST (env_with WriteOk ConnectOk (ExecResult (Some 0) sample_stdout [])
                           (ExecResult (Some 0) sample_processes []))
                     Map.empty (Some ppk_request))) = []"
proof -
  have a: "get_property ppk_request (S ''privateKey'') = Some (JStr ppk_text)"
    by (simp add: ppk_request_def request_with_def)
  have h: "truthy (get_property ppk_request (S ''host''))"
    by (simp add: ppk_request_def request_with_def)
  have u: "truthy (get_property ppk_request (S ''username''))"
    by (simp add: ppk_request_def request_with_def)
  from ppk_key_is_rejected_before_any_effect [OF a processedKey_ppk_text] h u
  show ?thesis
    by (intro conjI a processedKey_ppk_text h u) blast+
qed

subsection \<open>C8: the checks of the request body\<close>

text \<open>
  For every body other than \<open>null\<close>: a missing (or falsy) host or username gives the
  MissingField answer, whatever the credentials; with both present and neither a password
  nor a key, the answer is MissingCredential. In both cases nothing is done to the world.
\<close>

theorem missing_field_before_missing_credential:
  assumes "body \<noteq> JNull"
  shows "(\<not> truthy (get_property body (S ''host'')) \<or> \<not> truthy (get_property body (S ''username''))
          \<longrightarrow> response (POST env disk0 (Some body)) = ErrorResponse missing_fields_text 400
              \<and> trace (final (POST env disk0 (Some body))) = []
              \<and> files (final (POST env disk0 (Some body))) = disk0)
       \<and> (truthy (get_property body (S ''host'')) \<and> truthy (get_property body (S ''username''))
            \<and> \<not> truthy (get_property body (S ''privateKey''))
            \<and> \<not> truthy (get_property body (S ''password''))
          \<longrightarrow> response (POST env disk0 (Some body)) = ErrorResponse missing_credential_text 400
              \<and> trace (final (POST env disk0 (Some body))) = []
              \<and> files (final (POST env disk0 (Some body))) = disk0)"
  using assms POST_missing_field [of body env disk0] POST_missing_credential [of body env disk0]
  by (auto simp add: bad_request_simps initial_state_def)

theorem missing_field_before_missing_credential_witness:
  "JObj [] \<noteq> JNull
   \<and> \<not> truthy (get_property (JObj []) (S ''host''))
   \<and> response (POST (env_with WriteOk ConnectOk (ExecResult (Some 0) sample_stdout [])
                       (ExecResult (Some 0) sample_processes []))
                 Map.empty (Some (JObj [])))
       = ErrorResponse missing_fields_text 400
   \<and> request_with [(''host'', S ''10.0.0.5''), (''username'', S ''root'')] \<noteq> JNull
   \<and> truthy (get_property (request_with [(''host'', S ''10.0.0.5''), (''username'', S ''root'')])
               (S ''host''))
   \<and> truthy (get_property (request_with [(''host'', S ''10.0.0.5''), (''username'', S ''root'')])
               (S ''username''))
   \<and> \<not> truthy (get_property (request_with [(''host'', S ''10.0.0.5''), (''username'', S ''root'')])
               (S ''privateKey''))
   \<and> \<not> truthy (get_property (request_with [(''host'', S ''10.0.0.5''), (''username'', S ''root'')])
               (S ''password''))
   \<and> response (POST (env_with WriteOk ConnectOk (ExecResult (Some 0) sample_stdout [])
                       (ExecResult (Some 0) sample_processes []))
                 Map.empty
                 (Some (request_with [(''host'', S ''10.0.0.5''), (''username'', S ''root'')])))
       = ErrorResponse missing_credential_text 400"
proof -
  let ?E = "env_with WriteOk ConnectOk (ExecResult (Some 0) sample_stdout [])
              (ExecResult (Some 0) sample_processes [])"
  let ?r = "request_with [(''host'', S ''10.0.0.5''), (''username'', S ''root'')]"
  have a1: "JObj [] \<noteq> JNull" by simp
  have a2: "\<not> truthy (get_property (JObj []) (S ''host''))" by simp
  have b1: "?r \<noteq> JNull" by (simp add: request_with_def)
  have b2: "truthy (get_property ?r (S ''host''))" by (simp add: request_with_def)
  have b3: "truthy (get_property ?r (S ''username''))" by (simp add: request_with_def)
  have b4: "\<not> truthy (get_property ?r (S ''privateKey''))" by (simp add: request_with_def)
  have b5: "\<not> truthy (get_property ?r (S ''password''))" by (simp add: request_with_def)
  from missing_field_before_missing_credential [OF a1, of ?E Map.empty] a2
  have a: "response (POST ?E Map.empty (Some (JObj []))) = ErrorResponse missing_fields_text 400"
    by blast
  from missing_field_before_missing_credential [OF b1, of ?E Map.empty] b2 b3 b4 b5
  have b: "response (POST ?E Map.empty (Some ?r)) = ErrorResponse missing_credential_text 400"
    by blast
  show ?thesis
    by (intro conjI a1 a2 a b1 b2 b3 b4 b5 b)
qed

text \<open>
  Claim C8. For every request body missing host or username, the handler returns the
  MissingField error (status 400) before any network I/O or key-file creation, even when
  credentials are also absent; for every request with host and username present but neither
  password nor private-key material, it returns the MissingCredential error (status 400).

  The body \<open>null\<close> is valid JSON and has neither host nor username. The handler takes the
  six fields out of the body by destructuring, inside the outer \<open>try\<close>, before the check of
  host and username; on \<open>null\<close> that throws a \<open>TypeError\<close>, and the \<open>catch\<close> block answers with
  status 500 and the text of the error, not with the MissingField answer.
\<close>

theorem null_body_is_answered_with_500:
  "response (POST env disk0 (Some JNull))
     = ErrorResponse (errorMessage (Some (type_error_message env DestructureNull))) 500
   \<and> response (POST env disk0 (Some JNull)) \<noteq> ErrorResponse missing_fields_text 400
   \<and> get_property JNull (S ''host'') = None"
  by (simp add: POST_def catch_block_response)

theorem null_body_is_answered_with_500_witness:
  "response (POST (env_with WriteOk ConnectOk (ExecResult (Some 0) sample_stdout [])
                     (ExecResult (Some 0) sample_processes []))
               Map.empty (Some JNull))
     = ErrorResponse (S ''TypeError'') 500"
proof -
  let ?E = "env_with WriteOk ConnectOk (ExecResult (Some 0) sample_stdout [])
              (ExecResult (Some 0) sample_processes [])"
  have m: "type_error_message ?E DestructureNull = S ''TypeError''"
    by (simp add: env_with_def)
  have e: "errorMessage (Some (S ''TypeError'')) = S ''TypeError''"
    by code_simp
  from null_body_is_answered_with_500 [of ?E Map.empty]
  show ?thesis
    by (simp only: m e)
qed

subsection \<open>C9: a password and a key together\<close>

lemma after_probes_response:
  "(\<exists>d. response (after_probes env host k code out pout st) = Snapshot d)
   \<or> (\<exists>text. response (after_probes env host k code out pout st) = ErrorResponse text 500)"
  by (simp add: after_probes_def Let_def catch_block_response)

lemma connect_and_probe_response:
  "(\<exists>d. response (connect_and_probe env host k config st) = Snapshot d)
   \<or> (\<exists>text. response (connect_and_probe env host k config st) = ErrorResponse text 500)"
  using after_probes_response
  by (simp add: connect_and_probe_def Let_def catch_block_response
      split: connect_outcome.splits exec_outcome.splits)

lemma connect_and_probe_logs_connect:
  "Connect config \<in> set (trace (final (connect_and_probe env host k config st)))"
proof -
  let ?st1 = "log_event (Connect config) st"
  have in1: "Connect config \<in> set (trace ?st1)"
    by (simp add: log_event_def)
  have cb: "Connect config \<in> set (trace (final (catch_block env k m (s\<lparr>connected := c\<rparr>))))"
    if "Connect config \<in> set (trace s)" for m s c
    using that catch_block_trace_mono [of "s\<lparr>connected := c\<rparr>" env k m] by auto
  have ap: "Connect config \<in> set (trace (final (after_probes env host k code out pout s)))"
    if "Connect config \<in> set (trace s)" for code out pout s
    using that after_probes_trace_mono [of s env host k code out pout] by auto
  show ?thesis
    unfolding connect_and_probe_def Let_def
    by (auto split: connect_outcome.splits exec_outcome.splits intro!: cb ap
        simp add: log_event_def)
qed

lemma connect_and_probe_connects_once:
  assumes "Connect cfg \<in> set (trace (final (connect_and_probe env host k config st)))"
    and "\<forall>c. Connect c \<notin> set (trace st)"
  shows "cfg = config"
  using assms connect_and_probe_trace [of env host k config st] by auto

lemma key_auth_connects:
  assumes "Connect cfg \<in> set (trace (final (key_auth env host pk pass config st)))"
    and "\<forall>c. Connect c \<notin> set (trace st)"
  shows "cfg = key_config env pass config"
proof (cases pk)
  case (JStr key)
  show ?thesis
  proof (cases "includes_str (processedKey key) (S ''PuTTY-User-Key-File'')")
    case True
    with assms JStr show ?thesis
      by (simp add: key_auth_def bad_request_def)
  next
    case False
    note noppk = this
    let ?st2 = "log_event (WriteFile (new_key_path env) (processedKey key))
                  (log_event (Mkdir (tempDir env)) st)"
    have st2: "\<forall>c. Connect c \<notin> set (trace ?st2)"
      using assms(2) by (simp add: log_event_def)
    show ?thesis
    proof (cases "write_file_sync env (new_key_path env) (processedKey key)")
      case WriteOk
      then have "key_auth env host pk pass config st
          = connect_and_probe env host (Some (new_key_path env)) (key_config env pass config)
              (?st2\<lparr>files := (files ?st2)(new_key_path env \<mapsto> processedKey key)\<rparr>)"
        using JStr noppk by (simp add: key_auth_def Let_def)
      with assms(1) st2 show ?thesis
        using connect_and_probe_connects_once
          [of cfg env host "Some (new_key_path env)" "key_config env pass config"
              "?st2\<lparr>files := (files ?st2)(new_key_path env \<mapsto> processedKey key)\<rparr>"]
        by simp
    next
      case (WriteThrows m left)
      then have "set (trace (final (key_auth env host pk pass config st)))
           \<subseteq> set (trace ?st2) \<union> {Dispose} \<union> range Unlink"
        using JStr noppk
          catch_block_trace [of env "Some (new_key_path env)" m ?st2]
          catch_block_trace [of env "Some (new_key_path env)" m
            "?st2\<lparr>files := (files ?st2)(new_key_path env \<mapsto> the left)\<rparr>"]
        by (cases left) (auto simp add: key_auth_def Let_def)
      with assms(1) st2 show ?thesis by auto
    qed
  qed
qed (use assms catch_block_trace in \<open>fastforce simp add: key_auth_def\<close>)+

lemma key_auth_response:
  "response (key_auth env host pk pass config st) \<noteq> ErrorResponse missing_credential_text 400"
proof (cases pk)
  case (JStr key)
  show ?thesis
  proof (cases "includes_str (processedKey key) (S ''PuTTY-User-Key-File'')")
    case True
    with JStr show ?thesis
      using texts_differ(2) by (simp add: key_auth_def bad_request_simps)
  next
    case False
    note noppk = this
    show ?thesis
    proof (cases "write_file_sync env (new_key_path env) (processedKey key)")
      case WriteOk
      let ?st = "(log_event (WriteFile (new_key_path env) (processedKey key))
                    (log_event (Mkdir (tempDir env)) st))
                 \<lparr>files := (files (log_event (WriteFile (new_key_path env) (processedKey key))
                                (log_event (Mkdir (tempDir env)) st)))
                            (new_key_path env \<mapsto> processedKey key)\<rparr>"
      have "key_auth env host pk pass config st
          = connect_and_probe env host (Some (new_key_path env)) (key_config env pass config) ?st"
        using JStr noppk WriteOk by (simp add: key_auth_def Let_def)
      then show ?thesis
        using connect_and_probe_response
          [of env host "Some (new_key_path env)" "key_config env pass config" ?st]
        by auto
    next
      case (WriteThrows m left)
      with JStr noppk show ?thesis
        by (simp add: key_auth_def Let_def catch_block_response)
    qed
  qed
qed (simp_all add: key_auth_def catch_block_response)

text \<open>
  Claim C9. For every request that supplies both a password and private-key material (with
  host and username present), validation succeeds, the both-present case is not rejected,
  and key-based authentication is used: the connection is configured with the transient
  key-file path (plus optional passphrase) while the supplied password is ignored.

  The claim fails for a key that is a PuTTY container: with a password beside it the request
  is rejected with status 400 all the same, and no connection is configured.
\<close>

theorem ppk_key_with_password_is_rejected:
  "truthy (get_property ppk_and_password_request (S ''host''))
   \<and> truthy (get_property ppk_and_password_request (S ''username''))
   \<and> truthy (get_property ppk_and_password_request (S ''password''))
   \<and> truthy (get_property ppk_and_password_request (S ''privateKey''))
   \<and> response (POST (env_with WriteOk ConnectOk (ExecResult (Some 0) sample_stdout [])
                       (ExecResult (Some 0) sample_processes []))
                 Map.empty (Some ppk_and_password_request))
       = ErrorResponse ppk_detected_text 400
   \<and> trace (final (POST (env_with WriteOk ConnectOk (ExecResult (Some 0) sample_stdout [])
                           (ExecResult (Some 0) sample_processes []))
                     Map.empty (Some ppk_and_password_request))) = []"
proof -
  have k: "get_property ppk_and_password_request (S ''privateKey'') = Some (JStr ppk_text)"
    by (simp add: ppk_and_password_request_def request_with_def)
  have h: "truthy (get_property ppk_and_password_request (S ''host''))"
    by (simp add: ppk_and_password_request_def request_with_def)
  have u: "truthy (get_property ppk_and_password_request (S ''username''))"
    by (simp add: ppk_and_password_request_def request_with_def)
  have p: "truthy (get_property ppk_and_password_request (S ''password''))"
    by (simp add: ppk_and_password_request_def request_with_def)
  have pk: "truthy (get_property ppk_and_password_request (S ''privateKey''))"
    by (simp add: ppk_and_password_request_def request_with_def ppk_text_def)
  have "POST (env_with WriteOk ConnectOk (ExecResult (Some 0) sample_stdout [])
               (ExecResult (Some 0) sample_processes []))
          Map.empty (Some ppk_and_password_request)
        = bad_request ppk_detected_text None (initial_state Map.empty)"
    using k processedKey_ppk_text h u by (rule POST_ppk)
  then show ?thesis
    by (intro conjI h u p pk) (simp_all only: bad_request_simps, simp add: initial_state_def)
qed

text \<open>
  Claim C9, as amended: for every request that supplies both a password and private-key material
  (with host and username present), the both-present case is not rejected as a missing
  credential, and the key branch is taken while the supplied password is ignored: every
  connection the handler attempts is configured with the transient key-file path (plus the
  passphrase, if one is given) and without a password; and when the key is a string that
  does not contain the PuTTY marker and the key file is written, the connection is
  attempted with that configuration.
\<close>

theorem key_is_used_when_password_is_also_supplied:
  assumes "truthy (get_property body (S ''host''))"
    and "truthy (get_property body (S ''username''))"
    and "truthy (get_property body (S ''password''))"
    and "truthy (get_property body (S ''privateKey''))"
  shows "response (POST env disk0 (Some body)) \<noteq> ErrorResponse missing_credential_text 400
       \<and> (\<forall>cfg. Connect cfg \<in> set (trace (final (POST env disk0 (Some body))))
            \<longrightarrow> cfg = key_config env (get_property body (S ''passphrase''))
                        (connectionConfig (get_property body (S ''host''))
                           (get_property body (S ''port'')) (get_property body (S ''username'')))
              \<and> cfg_password cfg = None
              \<and> cfg_privateKeyPath cfg = Some (new_key_path env)
              \<and> cfg_passphrase cfg
                  = (if truthy (get_property body (S ''passphrase''))
                     then get_property body (S ''passphrase'') else None))
       \<and> (\<forall>k. get_property body (S ''privateKey'') = Some (JStr k)
              \<and> \<not> includes_str (processedKey k) (S ''PuTTY-User-Key-File'')
              \<and> write_file_sync env (new_key_path env) (processedKey k) = WriteOk
            \<longrightarrow> Connect (key_config env (get_property body (S ''passphrase''))
                           (connectionConfig (get_property body (S ''host''))
                              (get_property body (S ''port''))
                              (get_property body (S ''username''))))
                  \<in> set (trace (final (POST env disk0 (Some body)))))"
proof -
  let ?config = "connectionConfig (get_property body (S ''host''))
                   (get_property body (S ''port'')) (get_property body (S ''username''))"
  let ?pass = "get_property body (S ''passphrase'')"
  have body: "body \<noteq> JNull"
    using assms(1) by (cases body) simp_all
  have eq: "POST env disk0 (Some body)
        = key_auth env (the (get_property body (S ''host'')))
            (the (get_property body (S ''privateKey''))) ?pass ?config (initial_state disk0)"
    using POST_key_branch [OF body assms(1,2,4)] .
  have fresh: "\<forall>c. Connect c \<notin> set (trace (initial_state disk0))"
    by (simp add: initial_state_def)
  have a: "response (POST env disk0 (Some body)) \<noteq> ErrorResponse missing_credential_text 400"
    unfolding eq by (rule key_auth_response)
  have b: "cfg = key_config env ?pass ?config"
    if "Connect cfg \<in> set (trace (final (POST env disk0 (Some body))))" for cfg
    using that fresh unfolding eq by (rule key_auth_connects)
  have fields: "cfg_password (key_config env ?pass ?config) = None
      \<and> cfg_privateKeyPath (key_config env ?pass ?config) = Some (new_key_path env)
      \<and> cfg_passphrase (key_config env ?pass ?config) = (if truthy ?pass then ?pass else None)"
    by (simp add: key_config_def connectionConfig_def)
  have c: "Connect (key_config env ?pass ?config) \<in> set (trace (final (POST env disk0 (Some body))))"
    if "get_property body (S ''privateKey'') = Some (JStr k)"
      and "\<not> includes_str (processedKey k) (S ''PuTTY-User-Key-File'')"
      and "write_file_sync env (new_key_path env) (processedKey k) = WriteOk" for k
  proof -
    have pk: "the (get_property body (S ''privateKey'')) = JStr k"
      by (simp only: that(1) option.sel)
    have "key_auth env (the (get_property body (S ''host''))) (JStr k) ?pass ?config
            (initial_state disk0)
        = connect_and_probe env (the (get_property body (S ''host''))) (Some (new_key_path env))
            (key_config env ?pass ?config)
            ((initial_state disk0)\<lparr>trace := trace (initial_state disk0)
                 @ [Mkdir (tempDir env), WriteFile (new_key_path env) (processedKey k)],
               files := (files (initial_state disk0))(new_key_path env \<mapsto> processedKey k)\<rparr>)"
      using that(2,3) by (rule key_auth_written_ok)
    then show ?thesis
      unfolding eq pk by (simp only: connect_and_probe_logs_connect)
  qed
  from a b c fields show ?thesis
    by (intro conjI allI impI) (auto simp only:)
qed

theorem key_is_used_when_password_is_also_supplied_witness:
  "truthy (get_property key_and_password_request (S ''host''))
   \<and> truthy (get_property key_and_password_request (S ''username''))
   \<and> truthy (get_property key_and_password_request (S ''password''))
   \<and> truthy (get_property key_and_password_request (S ''privateKey''))
   \<and> get_property key_and_password_request (S ''privateKey'') = Some (JStr key_text)
   \<and> \<not> includes_str (processedKey key_text) (S ''PuTTY-User-Key-File'')
   \<and> write_file_sync (env_with WriteOk ConnectOk (ExecResult (Some 0) sample_stdout [])
                         (ExecResult (Some 0) sample_processes []))
         (new_key_path (env_with WriteOk ConnectOk (ExecResult (Some 0) sample_stdout [])
                          (ExecResult (Some 0) sample_processes [])))
         (processedKey key_text) = WriteOk
   \<and> Connect (key_config (env_with WriteOk ConnectOk (ExecResult (Some 0) sample_stdout [])
                             (ExecResult (Some 0) sample_processes []))
                 (get_property key_and_password_request (S ''passphrase''))
                 (connectionConfig (get_property key_and_password_request (S ''host''))
                    (get_property key_and_password_request (S ''port''))
                    (get_property key_and_password_request (S ''username''))))
       \<in> set (trace (final (POST (env_with WriteOk ConnectOk (ExecResult (Some 0) sample_stdout [])
                                    (ExecResult (Some 0) sample_processes []))
                              Map.empty (Some key_and_password_request))))
   \<and> cfg_password (key_config (env_with WriteOk ConnectOk (ExecResult (Some 0) sample_stdout [])
                                  (ExecResult (Some 0) sample_processes []))
                      (get_property key_and_password_request (S ''passphrase''))
                      (connectionConfig (get_property key_and_password_request (S ''host''))
                         (get_property key_and_password_request (S ''port''))
                         (get_property key_and_password_request (S ''username'')))) = None
   \<and> response (POST (env_with WriteOk ConnectOk (ExecResult (Some 0) sample_stdout [])
                       (ExecResult (Some 0) sample_processes []))
                 Map.empty (Some key_and_password_request))
       \<noteq> ErrorResponse missing_credential_text 400"
proof -
  let ?E = "env_with WriteOk ConnectOk (ExecResult (Some 0) sample_stdout [])
              (ExecResult (Some 0) sample_processes [])"
  let ?cfg = "key_config ?E (get_property key_and_password_request (S ''passphrase''))
                (connectionConfig (get_property key_and_password_request (S ''host''))
                   (get_property key_and_password_request (S ''port''))
                   (get_property key_and_password_request (S ''username'')))"
  have h: "truthy (get_property key_and_password_request (S ''host''))"
    by (simp add: key_and_password_request_def request_with_def)
  have u: "truthy (get_property key_and_password_request (S ''username''))"
    by (simp add: key_and_password_request_def request_with_def)
  have p: "truthy (get_property key_and_password_request (S ''password''))"
    by (simp add: key_and_password_request_def request_with_def)
  have k: "get_property key_and_password_request (S ''privateKey'') = Some (JStr key_text)"
    by (simp add: key_and_password_request_def request_with_def)
  have pk: "truthy (get_property key_and_password_request (S ''privateKey''))"
    by (simp only: k truthy.simps key_text_nonempty simp_thms)
  have w: "write_file_sync ?E (new_key_path ?E) (processedKey key_text) = WriteOk"
    by (simp only: env_with_simps)
  note inst = key_is_used_when_password_is_also_supplied [OF h u p pk, of ?E Map.empty]
  from inst k key_text_not_ppk w
  have c: "Connect ?cfg \<in> set (trace (final (POST ?E Map.empty (Some key_and_password_request))))"
    by blast
  from inst c have pw: "cfg_password ?cfg = None"
    by blast
  from inst
  have r: "response (POST ?E Map.empty (Some key_and_password_request))
           \<noteq> ErrorResponse missing_credential_text 400"
    by blast
  show ?thesis
    by (intro conjI h u p pk k key_text_not_ppk w c pw r)
qed

subsection \<open>C7: the exit code of the process probe\<close>

lemma connect_and_probe_runs_top:
  assumes "ssh_connect env config = ConnectOk"
    and "ssh_exec env fullCommand = ExecResult code out err"
  shows "Exec topProcessesCmd \<in> set (trace (final (connect_and_probe env host k config st)))"
proof -
  let ?st3 = "log_event (Exec topProcessesCmd) (log_event (Exec fullCommand)
                ((log_event (Connect config) st)\<lparr>connected := True\<rparr>))"
  have in3: "Exec topProcessesCmd \<in> set (trace ?st3)"
    by (simp add: log_event_def)
  show ?thesis
  proof (cases "ssh_exec env topProcessesCmd")
    case (ExecThrows m still)
    then show ?thesis
      using assms in3 catch_block_trace_mono [of "?st3\<lparr>connected := still\<rparr>" env k m]
      by (auto simp add: connect_and_probe_def Let_def)
  next
    case (ExecResult pcode pout perr)
    then show ?thesis
      using assms in3 after_probes_trace_mono [of ?st3 env host k code out pout]
      by (auto simp add: connect_and_probe_def Let_def)
  qed
qed

lemma top_processes_none:
  assumes "\<forall>line \<in> set (split [10] stdout). length (split_ws (trim line)) < 11"
  shows "top_processes stdout = []"
proof -
  have "filter (\<lambda>l. trim l \<noteq> [] \<and> 11 \<le> length (split_ws (trim l))) (split [10] stdout) = []"
    using assms by (auto simp add: filter_empty_conv)
  then have "length (top_processes stdout) = 0"
    by (simp add: length_top_processes)
  then show ?thesis by simp
qed

lemma top_processes_empty: "top_processes [] = []"
  by code_simp

text \<open>
  Claim C7. The process-table probe's exit status is never checked: for every process-probe
  outcome, including failed or empty output, the handler still returns a complete
  MetricsSnapshot whose process list is empty rather than failing, provided the scalar probe
  itself succeeded.

  The claim fails for a process probe that exits with a code other than \<open>0\<close> after writing
  lines to its output: the code is not read, so the lines are parsed like any others and the
  process list of the snapshot is not empty.
\<close>

theorem failed_process_probe_with_output_is_listed:
  "ssh_exec (env_with WriteOk ConnectOk (ExecResult (Some 0) sample_stdout [])
               (ExecResult (Some 1) sample_processes (S ''failed'')))
     topProcessesCmd
     = ExecResult (Some 1) sample_processes (S ''failed'')
   \<and> response (POST (env_with WriteOk ConnectOk (ExecResult (Some 0) sample_stdout [])
                       (ExecResult (Some 1) sample_processes (S ''failed'')))
                 Map.empty (Some password_request))
       = Snapshot (systemData (JStr (S ''10.0.0.5'')) sample_stdout sample_processes)
   \<and> proc_list (processes (systemData (JStr (S ''10.0.0.5'')) sample_stdout sample_processes))
       \<noteq> []"
proof -
  let ?E = "env_with WriteOk ConnectOk (ExecResult (Some 0) sample_stdout [])
              (ExecResult (Some 1) sample_processes (S ''failed''))"
  have a: "ssh_exec ?E topProcessesCmd = ExecResult (Some 1) sample_processes (S ''failed'')"
    by (simp only: env_with_simps)
  have eq: "POST ?E Map.empty (Some password_request)
        = connect_and_probe ?E (the (get_property password_request (S ''host''))) None
            ((connectionConfig (get_property password_request (S ''host''))
                (get_property password_request (S ''port''))
                (get_property password_request (S ''username'')))
             \<lparr>cfg_password := get_property password_request (S ''password'')\<rparr>)
            (initial_state Map.empty)"
    by (rule POST_password_branch) (simp_all add: password_request_def request_with_def)
  have host: "the (get_property password_request (S ''host'')) = JStr (S ''10.0.0.5'')"
    by (simp add: password_request_def request_with_def)
  have b: "response (POST ?E Map.empty (Some password_request))
        = Snapshot (systemData (JStr (S ''10.0.0.5'')) sample_stdout sample_processes)"
    unfolding eq host
    by (rule connect_and_probe_snapshot) (simp_all only: env_with_simps)
  have "length (top_processes sample_processes) = 2"
    using length_top_processes [of sample_processes] by (simp only: sample_tokens; simp)
  then have "top_processes sample_processes \<noteq> []"
    by auto
  then have c: "proc_list (processes (systemData (JStr (S ''10.0.0.5'')) sample_stdout
                  sample_processes)) \<noteq> []"
    by (simp add: systemData_def Let_def)
  show ?thesis
    by (intro conjI a b c)
qed

text \<open>
  Claim C7, as amended: the process-table probe's exit status is never checked: provided the scalar
  probe itself succeeded, for every result the process probe returns, whatever its exit
  code, the handler still returns a complete MetricsSnapshot rather than failing, whose
  process list holds the rows parsed from the probe's output: it is empty when that
  output is empty or has no line of 11 columns.
\<close>

theorem process_probe_exit_code_is_not_read:
  assumes "Exec topProcessesCmd \<in> set (trace (final (POST env disk0 request_json)))"
    and "ssh_exec env fullCommand = ExecResult (Some 0) stdout stderr"
    and "ssh_exec env topProcessesCmd = ExecResult pcode pstdout pstderr"
  shows "(\<exists>host. response (POST env disk0 request_json)
                  = Snapshot (systemData host stdout pstdout)
                \<and> proc_list (processes (systemData host stdout pstdout))
                  = top_processes pstdout)
       \<and> (pstdout = [] \<longrightarrow> top_processes pstdout = [])
       \<and> ((\<forall>line \<in> set (split [10] pstdout). length (split_ws (trim line)) < 11)
            \<longrightarrow> top_processes pstdout = [])"
proof -
  from POST_exec [OF assms(1)] obtain host k config st
    where eq: "POST env disk0 request_json = connect_and_probe env host k config st"
      and fresh: "Exec topProcessesCmd \<notin> set (trace st)"
    by blast
  have ok: "ssh_connect env config = ConnectOk"
    using connect_and_probe_exec_connected [of topProcessesCmd env host k config st]
      assms(1) fresh eq by simp
  have "response (POST env disk0 request_json) = Snapshot (systemData host stdout pstdout)"
    unfolding eq using ok assms(2,3) by (rule connect_and_probe_snapshot)
  moreover have "proc_list (processes (systemData host stdout pstdout)) = top_processes pstdout"
    by (simp add: systemData_def Let_def)
  ultimately have a: "\<exists>host. response (POST env disk0 request_json)
                  = Snapshot (systemData host stdout pstdout)
                \<and> proc_list (processes (systemData host stdout pstdout))
                  = top_processes pstdout"
    by blast
  have b: "pstdout = [] \<longrightarrow> top_processes pstdout = []"
    using top_processes_empty by simp
  have c: "(\<forall>line \<in> set (split [10] pstdout). length (split_ws (trim line)) < 11)
            \<longrightarrow> top_processes pstdout = []"
    using top_processes_none by blast
  from a b c show ?thesis by (intro conjI)
qed

theorem process_probe_exit_code_is_not_read_witness:
  "Exec topProcessesCmd
     \<in> set (trace (final (POST (env_with WriteOk ConnectOk (ExecResult (Some 0) sample_stdout [])
                                  (ExecResult (Some 1) [] (S ''failed'')))
                            Map.empty (Some password_request))))
   \<and> ssh_exec (env_with WriteOk ConnectOk (ExecResult (Some 0) sample_stdout [])
                 (ExecResult (Some 1) [] (S ''failed''))) fullCommand
       = ExecResult (Some 0) sample_stdout []
   \<and> ssh_exec (env_with WriteOk ConnectOk (ExecResult (Some 0) sample_stdout [])
                 (ExecResult (Some 1) [] (S ''failed''))) topProcessesCmd
       = ExecResult (Some 1) [] (S ''failed'')
   \<and> split [10] [] = [[]] \<and> length (split_ws (trim [])) < 11
   \<and> (\<exists>host. response (POST (env_with WriteOk ConnectOk (ExecResult (Some 0) sample_stdout [])
                                (ExecResult (Some 1) [] (S ''failed'')))
                          Map.empty (Some password_request))
               = Snapshot (systemData host sample_stdout []))
   \<and> top_processes [] = []"
proof -
  let ?E = "env_with WriteOk ConnectOk (ExecResult (Some 0) sample_stdout [])
              (ExecResult (Some 1) [] (S ''failed''))"
  have r1: "ssh_exec ?E fullCommand = ExecResult (Some 0) sample_stdout []"
    by (simp only: env_with_simps)
  have r2: "ssh_exec ?E topProcessesCmd = ExecResult (Some 1) [] (S ''failed'')"
    by (simp only: env_with_simps)
  have eq: "POST ?E Map.empty (Some password_request)
        = connect_and_probe ?E (the (get_property password_request (S ''host''))) None
            ((connectionConfig (get_property password_request (S ''host''))
                (get_property password_request (S ''port''))
                (get_property password_request (S ''username'')))
             \<lparr>cfg_password := get_property password_request (S ''password'')\<rparr>)
            (initial_state Map.empty)"
    by (rule POST_password_branch) (simp_all add: password_request_def request_with_def)
  have ran: "Exec topProcessesCmd \<in> set (trace (final (POST ?E Map.empty (Some password_request))))"
    unfolding eq by (rule connect_and_probe_runs_top [OF _ r1]) (simp only: env_with_simps)
  have s: "split [10] [] = [[]]"
    by (simp add: split_def)
  have l: "length (split_ws (trim [])) < 11"
    by code_simp
  note inst = process_probe_exit_code_is_not_read [OF ran r1 r2]
  from inst have a: "\<exists>host. response (POST ?E Map.empty (Some password_request))
               = Snapshot (systemData host sample_stdout [])"
    by blast
  from inst have b: "top_processes [] = []"
    by blast
  show ?thesis
    by (intro conjI ran r1 r2 s l a b)
qed

lemma ilog2_lower: "0 < n \<Longrightarrow> 2 ^ ilog2 n \<le> n"
proof (induction n rule: ilog2.induct)
  case (1 n)
  show ?case
  proof (cases "n < 2")
    case True
    with 1(2) show ?thesis
      by (subst ilog2.simps) simp
  next
    case False
    then have "0 < n div 2" by simp
    with 1(1) False have "2 ^ ilog2 (n div 2) \<le> n div 2" by simp
    then have "2 * 2 ^ ilog2 (n div 2) \<le> 2 * (n div 2)" by simp
    also have "\<dots> \<le> n" by simp
    finally show ?thesis
      using False by (subst ilog2.simps) simp
  qed
qed

lemma ilog2_upper: "2 ^ k \<le> n \<Longrightarrow> k \<le> ilog2 n"
proof (induction k arbitrary: n)
  case 0
  then show ?case by simp
next
  case (Suc k)
  have "(2::nat) \<le> 2 ^ Suc k"
    by simp
  with Suc(2) have n2: "\<not> n < 2"
    by linarith
  from Suc(2) have "2 ^ k \<le> n div 2"
    by simp
  then have "k \<le> ilog2 (n div 2)"
    by (rule Suc(1))
  with n2 show ?case
    by (subst ilog2.simps) simp
qed

text \<open>An integer of \<open>2^1024\<close> or more is beyond the binary64 range: it rounds to \<open>Infinity\<close>.\<close>

lemma round_ratio_overflow:
  assumes "2 ^ 1024 \<le> p"
  shows "round_ratio p 1 = PosInf"
proof -
  have pos: "0 < p"
    using assms by (rule less_le_trans [rotated]) simp
  have "(2::nat) ^ 1024 \<le> nat p"
    using assms pos by (simp add: le_nat_iff)
  then have big: "1024 \<le> ilog2 (nat p)"
    by (rule ilog2_upper)
  have "2 ^ ilog2 (nat p) \<le> nat p"
    using pos by (intro ilog2_lower) simp
  then have "int (2 ^ ilog2 (nat p)) \<le> int (nat p)"
    by (simp only: of_nat_le_iff)
  then have low: "(2::int) ^ ilog2 (nat p) \<le> p"
    using pos by simp
  have one: "ilog2 (Suc 0) = 0"
    by (subst ilog2.simps) simp
  have e: "binexp p 1 = int (ilog2 (nat p))"
    using low by (simp add: binexp_def exponent_from_def one)
  have e1024: "1024 \<le> binexp p 1"
    using big by (simp add: e)
  then have mx: "max (binexp p 1) (- 1022) = binexp p 1"
    by simp
  have pk: "pack False (binexp p 1 - 52) m = PosInf" for m
    using e1024 by (simp add: pack_def)
  have ab: "\<bar>p\<bar> = p" "\<not> p < 0" "p \<noteq> 0"
    using pos by simp_all
  show ?thesis
    by (simp only: round_ratio_def round_at_def ab mx pk if_False)
qed

lemma foldl_nines:
  "foldl (\<lambda>acc c. acc * 10 + digit_val c) a (replicate n 57) = (a + 1) * 10 ^ n - 1"
  by (induction n arbitrary: a) (simp_all add: digit_val_def algebra_simps)

lemma digits_value_nines: "digits_value 10 digit_val (replicate n 57) = 10 ^ n - 1"
  using foldl_nines [of 0 n] by (simp add: digits_value_def)

text \<open>A run of 310 digits \<open>9\<close> is read by \<open>parseInt\<close> as \<open>Infinity\<close>.\<close>

lemma parse_int_run_of_nines: "parse_int (replicate 310 57) = PosInf"
proof -
  have ns: "\<not> is_space 57"
    by (simp add: is_space_def)
  have dg: "is_digit 57"
    by (simp add: is_digit_def)
  have ne: "replicate 310 (57::nat) \<noteq> []"
    by simp
  have h: "hd (replicate 310 (57::nat)) = 57"
    by (simp add: hd_replicate)
  have ts: "trim_start (replicate 310 57) = replicate 310 57"
    using ns by (simp add: trim_start_def dropWhile_replicate)
  have nx: "\<not> prefix (S ''0x'') (replicate 310 57)" "\<not> prefix (S ''0X'') (replicate 310 57)"
    using h by (auto simp add: prefix_def dest!: arg_cong [where f = hd])
  have tw: "takeWhile is_digit (replicate 310 57) = replicate 310 57"
    using dg by (simp add: takeWhile_replicate)
  have big: "(2::int) ^ 1024 \<le> 10 ^ 310 - 1"
    by simp
  have "parse_int (replicate 310 57) = round_ratio (10 ^ 310 - 1) 1"
    unfolding parse_int_def Let_def ts
    using ne h nx tw by (simp add: digits_value_nines)
  then show ?thesis
    by (simp only: round_ratio_overflow [OF big])
qed

lemma parse_int_nines: "parse_int long_digits = PosInf"
  by (simp only: long_digits_def parse_int_run_of_nines)

lemma overflow_memory:
  "memTotal overflow_fields = PosInf" "memUsed overflow_fields = PosInf"
proof -
  have f: "to_string (nth_opt overflow_fields 3) = long_digits"
    "to_string (nth_opt overflow_fields 4) = long_digits"
    by (simp_all add: overflow_fields_def nth_opt_def to_string_def)
  show "memTotal overflow_fields = PosInf"
    unfolding memTotal_def f parse_int_nines by (simp add: num_or_def)
  show "memUsed overflow_fields = PosInf"
    unfolding memUsed_def f parse_int_nines by (simp add: num_or_def)
qed

subsection \<open>C10: the divisor of the memory percentage\<close>

lemma num_or_truthy: "num_truthy d \<Longrightarrow> num_truthy (num_or a d)"
  by (simp add: num_or_def)

lemma num_or_zero: "num_or (Fin 0 e) d = d"
  by (simp add: num_or_def)

lemma round_scaled_not_nan: "\<not> is_nan (round_scaled p q k)"
  using round_scaled_cases [of p q k] by auto

lemma jmul_100_nan: "is_nan (jmul v (num 100)) = is_nan v"
  by (cases v) (simp_all add: num_100 round_scaled_not_nan)

lemma jdiv_nan:
  assumes "\<not> is_nan a" and "num_truthy b"
  shows "is_nan (jdiv a b) = (is_infinite a \<and> is_infinite b)"
  using assms by (cases a; cases b) (simp_all add: round_scaled_not_nan)

lemma num_or_not_nan: "\<not> is_nan d \<Longrightarrow> \<not> is_nan (num_or a d)"
  by (cases a) (simp_all add: num_or_def)

text \<open>
  Claim C10. For every scalar-probe stdout, the memory-total value used as the divisor when
  computing memory.usagePercent is at least 1: both an unparsable total-memory field and one
  that parses to exactly 0 are coerced to 1, so the percentage computation never divides by
  zero and never produces Infinity or NaN.

  The claim fails on a total-memory field with a minus sign: \<open>parseInt\<close> reads the sign, the
  value \<open>-5\<close> is truthy, and it is the divisor. It fails also on fields of 310 digits: both
  numbers are \<open>Infinity\<close>, and the percentage is \<open>NaN\<close>.
\<close>

theorem negative_memory_total_is_the_divisor:
  "to_string (nth_opt (results negative_total_stdout) 3) = S ''-5''
   \<and> memTotal (results negative_total_stdout) = Fin (- 5) 0
   \<and> \<not> at_least_one (memTotal (results negative_total_stdout))
   \<and> memTotal overflow_fields = PosInf
   \<and> memUsed overflow_fields = PosInf
   \<and> jmul (jdiv (memUsed overflow_fields) (memTotal overflow_fields)) (num 100) = NaN
   \<and> to_fixed 2 (jmul (jdiv (memUsed overflow_fields) (memTotal overflow_fields)) (num 100))
       = Txt (S ''NaN'')"
proof -
  have o: "jmul (jdiv (memUsed overflow_fields) (memTotal overflow_fields)) (num 100) = NaN"
    unfolding overflow_memory by simp
  have x: "to_fixed 2 (jmul (jdiv (memUsed overflow_fields) (memTotal overflow_fields)) (num 100))
       = Txt (S ''NaN'')"
    unfolding o by (simp add: to_fixed_def)
  have rs: "results negative_total_stdout = negative_total_fields"
    by code_simp
  have f: "to_string (nth_opt negative_total_fields 3) = S ''-5''"
    by code_simp
  have p: "parse_int (S ''-5'') = Fin (- 5) 0"
    by code_simp
  have m: "memTotal (results negative_total_stdout) = Fin (- 5) 0"
    unfolding memTotal_def rs f p by (simp add: num_or_def)
  have a: "to_string (nth_opt (results negative_total_stdout) 3) = S ''-5''"
    unfolding rs by (rule f)
  have n: "\<not> at_least_one (memTotal (results negative_total_stdout))"
    unfolding m by simp
  show ?thesis
    by (intro conjI a m n overflow_memory o x)
qed

text \<open>
  Claim C10, as amended: for every scalar-probe stdout, the memory-total value used as the divisor when
  computing memory.usagePercent is never zero and never NaN: both an unparsable
  total-memory field and one that parses to exactly 0 are coerced to 1 (a field with a minus
  sign gives a negative divisor), so the percentage computation never divides by zero; its
  result is NaN exactly when the used-memory and the total-memory values are both infinite.
\<close>

theorem memory_divisor_is_never_zero:
  "num_truthy (memTotal rs)
   \<and> \<not> is_nan (memTotal rs)
   \<and> (\<forall>e. memTotal rs \<noteq> Fin 0 e)
   \<and> (is_nan (parse_int (to_string (nth_opt rs 3))) \<longrightarrow> memTotal rs = num 1)
   \<and> (\<forall>e. parse_int (to_string (nth_opt rs 3)) = Fin 0 e \<longrightarrow> memTotal rs = num 1)
   \<and> mem_usagePercent (memory (systemData host stdout pout))
       = to_fixed 2 (jmul (jdiv (memUsed (results stdout)) (memTotal (results stdout))) (num 100))
   \<and> is_nan (jmul (jdiv (memUsed rs) (memTotal rs)) (num 100))
       = (is_infinite (memUsed rs) \<and> is_infinite (memTotal rs))"
proof -
  have t: "num_truthy (memTotal rs)"
    unfolding memTotal_def by (rule num_or_truthy) (simp add: num_1)
  then have n: "\<not> is_nan (memTotal rs)"
    by (cases "memTotal rs") simp_all
  from t have z: "\<forall>e. memTotal rs \<noteq> Fin 0 e"
    by auto
  have u: "is_nan (parse_int (to_string (nth_opt rs 3))) \<longrightarrow> memTotal rs = num 1"
    by (cases "parse_int (to_string (nth_opt rs 3))") (simp_all add: memTotal_def num_or_def)
  have v: "\<forall>e. parse_int (to_string (nth_opt rs 3)) = Fin 0 e \<longrightarrow> memTotal rs = num 1"
    by (simp add: memTotal_def num_or_zero)
  have p: "mem_usagePercent (memory (systemData host stdout pout))
       = to_fixed 2 (jmul (jdiv (memUsed (results stdout)) (memTotal (results stdout))) (num 100))"
    by (simp add: systemData_def Let_def)
  have used: "\<not> is_nan (memUsed rs)"
    unfolding memUsed_def by (rule num_or_not_nan) (simp add: num_0)
  have q: "is_nan (jmul (jdiv (memUsed rs) (memTotal rs)) (num 100))
       = (is_infinite (memUsed rs) \<and> is_infinite (memTotal rs))"
    by (simp only: jmul_100_nan jdiv_nan [OF used t])
  show ?thesis
    by (intro conjI t n z u v p q)
qed

theorem memory_divisor_is_never_zero_witness:
  "is_nan (parse_int (to_string (nth_opt [] 3))) \<and> memTotal [] = num 1
   \<and> parse_int (to_string (nth_opt [S ''0'', S ''1'', S ''cpu'', S ''0''] 3)) = Fin 0 0
   \<and> memTotal [S ''0'', S ''1'', S ''cpu'', S ''0''] = num 1
   \<and> num_truthy (memTotal [S ''0'', S ''1'', S ''cpu'', S ''0''])"
proof -
  have a: "is_nan (parse_int (to_string (nth_opt [] 3)))"
    by code_simp
  have b: "parse_int (to_string (nth_opt [S ''0'', S ''1'', S ''cpu'', S ''0''] 3)) = Fin 0 0"
    by code_simp
  from memory_divisor_is_never_zero [of "[]"] a have c: "memTotal [] = num 1"
    by blast
  note inst = memory_divisor_is_never_zero [of "[S ''0'', S ''1'', S ''cpu'', S ''0'']"]
  from inst b have d: "memTotal [S ''0'', S ''1'', S ''cpu'', S ''0''] = num 1"
    by blast
  from inst have e: "num_truthy (memTotal [S ''0'', S ''1'', S ''cpu'', S ''0''])"
    by blast
  show ?thesis
    by (intro conjI a c b d e)
qed

end
